theory Spec2Isabelle
  imports Complex_Main
begin

section \<open>Floats, vectors and Python errors\<close>

text \<open>
  A float of the program is a real number or a value that is not finite:
  \<open>NotFinite\<close> stands for \<open>nan\<close> and \<open>inf\<close>, which numpy produces (with a warning,
  never an exception) when a float64 is divided by zero. \<open>ZeroDivisionError\<close> is what a
  division of Python numbers by zero would raise; no operation below raises it. Rounding,
  overflow and underflow are not modelled: a result that is \<open>Fin\<close> here may overflow or
  underflow in float64, so no theorem below concludes for all inputs that a computed
  float is finite. A value that is not finite stays so through every operation below.
\<close>

datatype flt = Fin real | NotFinite

datatype error = TypeError | ValueError | IndexError | ZeroDivisionError

definition flift :: "(real \<Rightarrow> real) \<Rightarrow> flt \<Rightarrow> flt" where
  "flift f a = (case a of Fin x \<Rightarrow> Fin (f x) | NotFinite \<Rightarrow> NotFinite)"

definition flift2 :: "(real \<Rightarrow> real \<Rightarrow> real) \<Rightarrow> flt \<Rightarrow> flt \<Rightarrow> flt" where
  "flift2 f a b =
     (case a of NotFinite \<Rightarrow> NotFinite
      | Fin x \<Rightarrow> (case b of NotFinite \<Rightarrow> NotFinite | Fin y \<Rightarrow> Fin (f x y)))"

instantiation flt :: "{zero, one, plus, minus, uminus, times, inverse, abs, sgn, power}"
begin

definition zero_flt :: flt where
  "zero_flt = Fin 0"

definition one_flt :: flt where
  "one_flt = Fin 1"

definition plus_flt :: "flt \<Rightarrow> flt \<Rightarrow> flt" where
  "plus_flt = flift2 (\<lambda>x y. x + y)"

definition minus_flt :: "flt \<Rightarrow> flt \<Rightarrow> flt" where
  "minus_flt = flift2 (\<lambda>x y. x - y)"

definition uminus_flt :: "flt \<Rightarrow> flt" where
  "uminus_flt = flift (\<lambda>x. - x)"

definition times_flt :: "flt \<Rightarrow> flt \<Rightarrow> flt" where
  "times_flt = flift2 (\<lambda>x y. x * y)"

definition divide_flt :: "flt \<Rightarrow> flt \<Rightarrow> flt" where
  \<comment> \<open>numpy float division: a zero divisor gives \<open>nan\<close> or \<open>inf\<close>, not an exception\<close>
  "divide_flt a b =
     (case a of NotFinite \<Rightarrow> NotFinite
      | Fin x \<Rightarrow> (case b of NotFinite \<Rightarrow> NotFinite
                  | Fin y \<Rightarrow> if y = 0 then NotFinite else Fin (x / y)))"

definition inverse_flt :: "flt \<Rightarrow> flt" where
  "inverse_flt a = divide (Fin 1) a"

definition abs_flt :: "flt \<Rightarrow> flt" where
  "abs_flt = flift (\<lambda>x. \<bar>x\<bar>)"

definition sgn_flt :: "flt \<Rightarrow> flt" where
  "sgn_flt = flift sgn"

instance ..

end

definition fcos :: "flt \<Rightarrow> flt" where
  "fcos = flift cos"

definition fsin :: "flt \<Rightarrow> flt" where
  "fsin = flift sin"

definition fsqrt :: "flt \<Rightarrow> flt" where
  \<comment> \<open>\<open>sqrt\<close> of a negative number is \<open>nan\<close>\<close>
  "fsqrt a = (case a of NotFinite \<Rightarrow> NotFinite
              | Fin x \<Rightarrow> if x < 0 then NotFinite else Fin (sqrt x))"

definition fcbrt :: "flt \<Rightarrow> flt" where
  \<comment> \<open>\<open>a ** (1 / 3)\<close>; a negative base gives \<open>nan\<close>\<close>
  "fcbrt a = (case a of NotFinite \<Rightarrow> NotFinite
              | Fin x \<Rightarrow> if x < 0 then NotFinite else Fin (x powr (1 / 3)))"

definition is_finite :: "flt \<Rightarrow> bool" where
  "is_finite a = (case a of Fin x \<Rightarrow> True | NotFinite \<Rightarrow> False)"

definition finite_vec :: "flt list \<Rightarrow> bool" where
  "finite_vec v = list_all is_finite v"

definition zeros :: "nat \<Rightarrow> flt list" where
  "zeros n = replicate n (Fin 0)"

definition broadcast :: "('a \<Rightarrow> 'b \<Rightarrow> 'c) \<Rightarrow> 'a list \<Rightarrow> 'b list \<Rightarrow> error + 'c list" where
  \<comment> \<open>numpy's element-wise operation on two vectors: equal lengths, or one of them of
      length 1; any other pair of shapes raises \<open>ValueError\<close>\<close>
  "broadcast f xs ys =
     (if length xs = length ys then Inr (map2 f xs ys)
      else if length ys = 1 then Inr (map (\<lambda>x. f x (hd ys)) xs)
      else if length xs = 1 then Inr (map (\<lambda>y. f (hd xs) y) ys)
      else Inl ValueError)"

definition vec_sub :: "flt list \<Rightarrow> flt list \<Rightarrow> error + flt list" where
  "vec_sub = broadcast (\<lambda>x y. x - y)"

section \<open>Action bounds\<close>

text \<open>
  \<open>action_bounds\<close> is \<open>None\<close>, the empty list \<open>[]\<close>, or an array with one row
  \<open>[low, high]\<close> per channel.
\<close>

datatype bounds = PyNone | Rows "(real \<times> real) list"

definition clip1 :: "flt \<Rightarrow> real \<times> real \<Rightarrow> flt" where
  \<comment> \<open>\<open>np.clip\<close> on one channel: \<open>minimum(maximum(a, low), high)\<close>; \<open>nan\<close> stays \<open>nan\<close>
      (\<open>np.clip\<close> brings an infinite value to a bound: \<open>NotFinite\<close> does not tell it
      from \<open>nan\<close> and is kept)\<close>
  "clip1 a lh = flift (\<lambda>x. min (max x (fst lh)) (snd lh)) a"

definition np_clip :: "flt list \<Rightarrow> (real \<times> real) list \<Rightarrow> error + flt list" where
  "np_clip action rows = broadcast clip1 action rows"

definition apply_action_bounds :: "bounds \<Rightarrow> flt list \<Rightarrow> error + flt list" where
  \<comment> \<open>the wrapper of the decorator, after \<open>method\<close> has returned \<open>action\<close>:
      \<open>None != []\<close> is true, and \<open>None[:, 0]\<close> raises \<open>TypeError\<close>\<close>
  "apply_action_bounds action_bounds action =
     (case action_bounds of
        PyNone \<Rightarrow> Inl TypeError
      | Rows rows \<Rightarrow> if rows \<noteq> [] then np_clip action rows else Inr action)"

definition init_action_bounds :: "bounds \<Rightarrow> bounds" where
  \<comment> \<open>\<open>if action_bounds is None: action_bounds = []\<close>, in the constructors of
      \<open>Controller3WRobotPID\<close>, \<open>Controller3WRobotNIMotionPrimitive\<close> and \<open>ControllerKinPoint\<close>\<close>
  "init_action_bounds b = (case b of PyNone \<Rightarrow> Rows [] | Rows rows \<Rightarrow> Rows rows)"

definition within_bounds :: "flt list \<Rightarrow> (real \<times> real) list \<Rightarrow> bool" where
  "within_bounds action rows =
     (length action = length rows \<and>
      list_all (\<lambda>(a, lh). case a of NotFinite \<Rightarrow> False | Fin x \<Rightarrow> fst lh \<le> x \<and> x \<le> snd lh)
        (zip action rows))"

section \<open>Clock\<close>

text \<open>
  Modelled from the spec: the class \<open>Clock\<close> of \<open>rcognita.__utilities\<close>, which is not
  among the sources. \<open>check_time\<close> is true exactly when the time has crossed a period
  boundary since the last true reply, and then remembers that time; \<open>reset\<close> rewinds to
  the origin given at construction and keeps the period.
\<close>

record clock =
  clock_period :: real
  clock_time_start :: real
  clock_current_time :: real

definition Clock :: "real \<Rightarrow> real \<Rightarrow> clock" where
  "Clock p t0 = \<lparr>clock_period = p, clock_time_start = t0, clock_current_time = t0\<rparr>"

definition check_time :: "clock \<Rightarrow> real \<Rightarrow> bool \<times> clock" where
  "check_time c t =
     (if clock_current_time c + clock_period c \<le> t
      then (True, c\<lparr>clock_current_time := t\<rparr>) else (False, c))"

definition clock_reset :: "clock \<Rightarrow> clock" where
  "clock_reset c = c\<lparr>clock_current_time := clock_time_start c\<rparr>"

section \<open>Actor and critic\<close>

datatype status = Pending | Accepted | Rejected

text \<open>
  Modelled from the spec: the classes of the actor and of the critic, which are not among
  the sources. The fields are those the controllers read and write; the weight slots are
  the cached weights (in effect), the candidate of the last optimization, and for the
  critic the old slot, the last known-good snapshot that \<open>restore_weights\<close> reverts to.
\<close>

record 's actor =
  actor_observation :: "flt list"
  actor_target :: "flt list"
  actor_action :: "flt list"
  actor_action_old :: "flt list"
  actor_action_init :: "flt list"
  actor_weights :: "flt list"
  actor_optimized_weights :: "flt list"
  actor_status :: status
  actor_safe_controller :: 's

record critic =
  critic_buffer :: "(flt list \<times> flt list) list"
  critic_capacity :: nat
  critic_target :: "flt list"
  critic_weights :: "flt list"
  critic_weights_old :: "flt list"
  critic_optimized_weights :: "flt list"
  critic_status :: status
  critic_observation_last_good :: "flt list"
  critic_r_prev :: flt
  critic_CALFs :: "flt list"
  critic_clock :: clock

text \<open>
  What the spec leaves opaque is a parameter: the two solvers with their acceptance tests,
  the running objective, the function approximators, and the two methods of the safe
  controller held by the actor (any class with \<open>compute_action\<close> and
  \<open>compute_action_sampled\<close>).
\<close>

record 's env =
  critic_solver :: "critic \<Rightarrow> real \<Rightarrow> flt list \<times> status"
  actor_solver :: "'s actor \<Rightarrow> critic \<Rightarrow> real option \<Rightarrow> flt list \<times> status"
  running_objective :: "'s actor \<Rightarrow> flt list \<Rightarrow> flt list \<Rightarrow> flt"
  critic_model :: "flt list \<Rightarrow> flt list \<Rightarrow> flt"
  actor_model :: "flt list \<Rightarrow> flt list \<Rightarrow> flt list"
  safe_compute_action :: "'s \<Rightarrow> flt list \<Rightarrow> error + (flt list \<times> 's)"
  safe_compute_action_sampled ::
    "'s \<Rightarrow> real \<Rightarrow> flt list \<Rightarrow> flt list \<Rightarrow> error + (flt list \<times> 's)"

definition push_buffer :: "nat \<Rightarrow> 'a \<Rightarrow> 'a list \<Rightarrow> 'a list" where
  \<comment> \<open>Modelled from the spec: a buffer of fixed capacity, the newest row at the bottom,
      the oldest discarded on overflow\<close>
  "push_buffer cap x buf = (let b = buf @ [x] in drop (length b - cap) b)"

definition update_buffers :: "flt list \<Rightarrow> flt list \<Rightarrow> critic \<Rightarrow> critic" where
  \<comment> \<open>Modelled from the spec: \<open>critic.update_buffers(observation, action)\<close>\<close>
  "update_buffers observation action c =
     c\<lparr>critic_buffer := push_buffer (critic_capacity c) (observation, action) (critic_buffer c)\<rparr>"

definition critic_update_target :: "flt list \<Rightarrow> critic \<Rightarrow> critic" where
  \<comment> \<open>Modelled from the spec: \<open>critic.update_target(target)\<close>\<close>
  "critic_update_target target c = c\<lparr>critic_target := target\<rparr>"

definition critic_optimize_weights :: "'s env \<Rightarrow> real \<Rightarrow> critic \<Rightarrow> critic" where
  \<comment> \<open>Modelled from the spec: \<open>critic.optimize_weights(time)\<close> runs the solver on the
      buffered history, leaves a candidate and the result of the acceptance test, and does
      not touch the cached weights\<close>
  "critic_optimize_weights env time c =
     c\<lparr>critic_optimized_weights := fst (critic_solver env c time),
       critic_status := snd (critic_solver env c time)\<rparr>"

definition update_weights :: "critic \<Rightarrow> critic" where
  \<comment> \<open>Modelled from the spec: \<open>critic.update_weights()\<close> puts the candidate in effect\<close>
  "update_weights c = c\<lparr>critic_weights := critic_optimized_weights c\<rparr>"

definition cache_weights :: "critic \<Rightarrow> critic" where
  \<comment> \<open>Modelled from the spec: \<open>critic.cache_weights()\<close>, the explicit commit of the
      candidate as the known-good snapshot\<close>
  "cache_weights c = c\<lparr>critic_weights_old := critic_optimized_weights c\<rparr>"

definition restore_weights :: "critic \<Rightarrow> critic" where
  \<comment> \<open>Modelled from the spec: \<open>critic.restore_weights()\<close> reverts the cached weights to
      the old snapshot\<close>
  "restore_weights c = c\<lparr>critic_weights := critic_weights_old c\<rparr>"

definition critic_call :: "'s env \<Rightarrow> critic \<Rightarrow> flt list \<Rightarrow> bool \<Rightarrow> flt" where
  \<comment> \<open>Modelled from the spec: \<open>critic(observation, use_stored_weights)\<close> evaluates the
      certificate with the cached or with the candidate weights\<close>
  "critic_call env c observation use_stored_weights =
     critic_model env
       (if use_stored_weights then critic_weights c else critic_optimized_weights c) observation"

definition receive_observation :: "flt list \<Rightarrow> 's actor \<Rightarrow> 's actor" where
  \<comment> \<open>Modelled from the spec: \<open>actor.receive_observation(observation)\<close>\<close>
  "receive_observation observation a = a\<lparr>actor_observation := observation\<rparr>"

definition actor_update_target :: "flt list \<Rightarrow> 's actor \<Rightarrow> 's actor" where
  \<comment> \<open>Modelled from the spec: \<open>actor.update_target(target)\<close>\<close>
  "actor_update_target target a = a\<lparr>actor_target := target\<rparr>"

definition actor_optimize_weights :: "'s env \<Rightarrow> critic \<Rightarrow> real option \<Rightarrow> 's actor \<Rightarrow> 's actor" where
  \<comment> \<open>Modelled from the spec: \<open>actor.optimize_weights(time)\<close> leaves a candidate and the
      result of the acceptance test, and does not touch the cached weights\<close>
  "actor_optimize_weights env c time a =
     a\<lparr>actor_optimized_weights := fst (actor_solver env a c time),
       actor_status := snd (actor_solver env a c time)\<rparr>"

definition update_and_cache_weights :: "'s actor \<Rightarrow> 's actor" where
  \<comment> \<open>Modelled from the spec: \<open>actor.update_and_cache_weights()\<close> promotes the candidate\<close>
  "update_and_cache_weights a = a\<lparr>actor_weights := actor_optimized_weights a\<rparr>"

definition model_update_and_cache_weights :: "flt list \<Rightarrow> 's actor \<Rightarrow> 's actor" where
  \<comment> \<open>Modelled from the spec: \<open>actor.model.update_and_cache_weights(weights)\<close> makes the
      given vector the cached weights of the actor's model\<close>
  "model_update_and_cache_weights w a = a\<lparr>actor_weights := w\<rparr>"

definition update_action :: "'s env \<Rightarrow> flt list option \<Rightarrow> 's actor \<Rightarrow> 's actor" where
  \<comment> \<open>Modelled from the spec: \<open>actor.update_action(observation)\<close> synthesizes the action
      from the cached weights and the observation (the one received, when none is given)
      and stores it as the current action\<close>
  "update_action env observation a =
     a\<lparr>actor_action := actor_model env (actor_weights a)
          (case observation of None \<Rightarrow> actor_observation a | Some ob \<Rightarrow> ob)\<rparr>"

definition set_action :: "flt list \<Rightarrow> 's actor \<Rightarrow> 's actor" where
  \<comment> \<open>Modelled from the spec: \<open>actor.set_action(action)\<close> writes the current-action slot\<close>
  "set_action action a = a\<lparr>actor_action := action\<rparr>"

section \<open>Controller, RLController and the CALF controllers\<close>

datatype kind = RLController | CALFControllerExPost | CALFControllerPredictive

record 's controller =
  ctl_kind :: kind
  ctl_controller_clock :: real
  ctl_sampling_time :: real
  ctl_observation_target :: "flt list"
  ctl_is_fixed_critic_weights :: bool
  ctl_clock :: clock
  ctl_actor :: "'s actor"
  ctl_critic :: critic
  ctl_action_bounds :: bounds
  ctl_critic_clock :: real
  ctl_critic_period :: real
  ctl_weights_difference_norms :: "flt list"
  ctl_action :: "flt list"
  ctl_safe_only :: bool

definition bindE :: "error + 'a \<Rightarrow> ('a \<Rightarrow> error + 'b) \<Rightarrow> error + 'b" where
  \<comment> \<open>sequencing: an exception of the first step leaves the method\<close>
  "bindE m f = (case m of Inl e \<Rightarrow> Inl e | Inr x \<Rightarrow> f x)"

definition RLController_reset :: "'s controller \<Rightarrow> 's controller" where
  "RLController_reset self =
     self\<lparr>ctl_clock := clock_reset (ctl_clock self),
          ctl_critic := (ctl_critic self)\<lparr>critic_clock := clock_reset (critic_clock (ctl_critic self))\<rparr>,
          ctl_actor := (ctl_actor self)\<lparr>actor_action_old := actor_action_init (ctl_actor self)\<rparr>\<rparr>"

definition store_sample :: "'s controller \<Rightarrow> flt list \<Rightarrow> flt list \<Rightarrow> 's controller" where
  \<comment> \<open>the first four calls of the three \<open>compute_action\<close>s: \<open>critic.update_buffers\<close> with
      the action the actor holds, \<open>actor.receive_observation\<close>, and the two
      \<open>update_target\<close>\<close>
  "store_sample self observation observation_target =
     self\<lparr>ctl_critic := critic_update_target observation_target
            (update_buffers observation (actor_action (ctl_actor self)) (ctl_critic self)),
          ctl_actor := actor_update_target observation_target
            (receive_observation observation (ctl_actor self))\<rparr>"

definition RLController_compute_action ::
  "'s env \<Rightarrow> 's controller \<Rightarrow> flt list \<Rightarrow> bool \<Rightarrow> real \<Rightarrow> flt list
     \<Rightarrow> error + (flt list \<times> 's controller)" where
  \<comment> \<open>decorated with \<open>apply_action_bounds\<close>; \<open>critic.update_and_cache_weights()\<close> is
      modelled as \<open>update_weights\<close> followed by \<open>cache_weights\<close>\<close>
  "RLController_compute_action env self observation is_critic_update time observation_target =
     (let s0 = store_sample self observation observation_target;
          s1 = (if is_critic_update
                then s0\<lparr>ctl_critic :=
                  cache_weights (update_weights (critic_optimize_weights env time (ctl_critic s0)))\<rparr>
                else s0);
          a1 = actor_optimize_weights env (ctl_critic s1) None (ctl_actor s1);
          a2 = update_action env (Some observation) (update_and_cache_weights a1)
      in bindE (apply_action_bounds (ctl_action_bounds s1) (actor_action a2))
           (\<lambda>action. Inr (action, s1\<lparr>ctl_actor := a2, ctl_action := action\<rparr>)))"

definition invoke_safe_action ::
  "'s env \<Rightarrow> flt list \<Rightarrow> 's controller \<Rightarrow> error + 's controller" where
  "invoke_safe_action env observation self =
     (let c1 = restore_weights (ctl_critic self)
      in bindE (vec_sub observation (ctl_observation_target self))
           (\<lambda>rel. bindE (safe_compute_action env (actor_safe_controller (ctl_actor self)) rel)
              (\<lambda>(action, sc).
                 let a1 = set_action action ((ctl_actor self)\<lparr>actor_safe_controller := sc\<rparr>);
                     a2 = model_update_and_cache_weights action a1;
                     c2 = c1\<lparr>critic_r_prev :=
                            critic_r_prev c1 + running_objective env a2 observation action\<rparr>
                 in Inr (self\<lparr>ctl_actor := a2, ctl_critic := c2\<rparr>))))"

definition fallback ::
  "'s env \<Rightarrow> flt list \<Rightarrow> 's controller \<Rightarrow> error + (flt list \<times> 's controller)" where
  \<comment> \<open>a branch that ends in \<open>self.invoke_safe_action(observation)\<close>, followed by
      \<open>return self.actor.action\<close>\<close>
  "fallback env observation self =
     bindE (invoke_safe_action env observation self)
       (\<lambda>s. Inr (actor_action (ctl_actor s), s))"

definition critic_optimized :: "'s env \<Rightarrow> real \<Rightarrow> 's controller \<Rightarrow> 's controller" where
  \<comment> \<open>\<open>self.critic.optimize_weights(time=time)\<close>\<close>
  "critic_optimized env time self =
     self\<lparr>ctl_critic := critic_optimize_weights env time (ctl_critic self)\<rparr>"

definition critic_weights_updated :: "'s controller \<Rightarrow> 's controller" where
  \<comment> \<open>\<open>self.critic.update_weights()\<close>\<close>
  "critic_weights_updated self = self\<lparr>ctl_critic := update_weights (ctl_critic self)\<rparr>"

definition actor_optimized :: "'s env \<Rightarrow> real \<Rightarrow> 's controller \<Rightarrow> 's controller" where
  \<comment> \<open>\<open>self.actor.optimize_weights(time=time)\<close>\<close>
  "actor_optimized env time self =
     self\<lparr>ctl_actor :=
            actor_optimize_weights env (ctl_critic self) (Some time) (ctl_actor self)\<rparr>"

definition ExPost_before_optimize :: "'s controller \<Rightarrow> flt list \<Rightarrow> flt list \<Rightarrow> 's controller" where
  \<comment> \<open>\<open>CALFControllerExPost.compute_action\<close> up to the call of
      \<open>critic.optimize_weights\<close>\<close>
  "ExPost_before_optimize self observation observation_target =
     store_sample self observation observation_target"

definition ExPost_accept ::
  "'s env \<Rightarrow> flt list \<Rightarrow> 's controller \<Rightarrow> flt list \<times> 's controller" where
  \<comment> \<open>the branch \<open>if actor_weights_accepted\<close> of \<open>CALFControllerExPost.compute_action\<close>,
      followed by \<open>return self.actor.action\<close>\<close>
  "ExPost_accept env observation self =
     (let a1 = update_action env None (update_and_cache_weights (ctl_actor self));
          c1 = cache_weights ((ctl_critic self)\<lparr>critic_observation_last_good := observation\<rparr>);
          c2 = c1\<lparr>critic_r_prev := running_objective env a1 observation (actor_action a1)\<rparr>
      in (actor_action a1, self\<lparr>ctl_actor := a1, ctl_critic := c2\<rparr>))"

definition ExPost_compute_action ::
  "'s env \<Rightarrow> 's controller \<Rightarrow> flt list \<Rightarrow> bool \<Rightarrow> real \<Rightarrow> flt list
     \<Rightarrow> error + (flt list \<times> 's controller)" where
  \<comment> \<open>decorated with \<open>apply_callbacks\<close>, which reports the result to the callbacks and
      returns it unchanged\<close>
  "ExPost_compute_action env self observation is_critic_update time observation_target =
     (let s1 = critic_optimized env time
                 (ExPost_before_optimize self observation observation_target);
          critic_weights_accepted = (critic_status (ctl_critic s1) = Accepted)
      in if critic_weights_accepted then
           bindE (invoke_safe_action env observation (critic_weights_updated s1))
             (\<lambda>s2. let s3 = actor_optimized env time s2;
                        actor_weights_accepted = (actor_status (ctl_actor s3) = Accepted)
                    in if actor_weights_accepted then Inr (ExPost_accept env observation s3)
                       else fallback env observation s3)
         else fallback env observation s1)"

definition Predictive_backfill ::
  "'s env \<Rightarrow> 's controller \<Rightarrow> flt list \<Rightarrow> flt list \<Rightarrow> error + 's controller" where
  \<comment> \<open>the block under the comment "if on prev step weights were accepted, then upd last
      good" of \<open>CALFControllerPredictive.compute_action\<close>; \<open>CALFs[-1] = v\<close> writes the
      last entry\<close>
  "Predictive_backfill env self observation observation_target =
     (if actor_status (ctl_actor self) = Accepted then
        (let c1 = (ctl_critic self)\<lparr>critic_observation_last_good := observation,
                                    critic_status := Rejected\<rparr>;
             a1 = (ctl_actor self)\<lparr>actor_status := Rejected\<rparr>
         in if critic_CALFs c1 \<noteq> [] then
              bindE (vec_sub (critic_observation_last_good c1) observation_target)
                (\<lambda>rel. Inr (self\<lparr>ctl_critic :=
                               c1\<lparr>critic_CALFs := (critic_CALFs c1)
                                    [length (critic_CALFs c1) - 1 := critic_call env c1 rel True]\<rparr>,
                             ctl_actor := a1\<rparr>))
            else Inr (self\<lparr>ctl_critic := c1, ctl_actor := a1\<rparr>))
      else Inr self)"

definition Predictive_before_optimize ::
  "'s env \<Rightarrow> 's controller \<Rightarrow> flt list \<Rightarrow> flt list \<Rightarrow> error + 's controller" where
  \<comment> \<open>\<open>CALFControllerPredictive.compute_action\<close> up to the call of
      \<open>critic.optimize_weights\<close>\<close>
  "Predictive_before_optimize env self observation observation_target =
     (let s0 = self\<lparr>ctl_critic := critic_update_target observation_target
                   (update_buffers observation (actor_action (ctl_actor self)) (ctl_critic self)),
                 ctl_actor := actor_update_target observation_target (ctl_actor self)\<rparr>
      in bindE (Predictive_backfill env s0 observation observation_target)
           (\<lambda>s1. Inr (s1\<lparr>ctl_actor := receive_observation observation (ctl_actor s1)\<rparr>)))"

definition Predictive_accept :: "'s env \<Rightarrow> 's controller \<Rightarrow> flt list \<times> 's controller" where
  \<comment> \<open>the branch \<open>if self.actor.weights_acceptance_status == "accepted"\<close> after
      \<open>actor.optimize_weights\<close>, followed by \<open>return self.actor.action\<close>\<close>
  "Predictive_accept env self =
     (let a1 = update_action env None (update_and_cache_weights (ctl_actor self));
          c1 = cache_weights (ctl_critic self)
      in (actor_action a1, self\<lparr>ctl_actor := a1, ctl_critic := c1\<rparr>))"

definition Predictive_compute_action ::
  "'s env \<Rightarrow> 's controller \<Rightarrow> flt list \<Rightarrow> bool \<Rightarrow> real \<Rightarrow> flt list
     \<Rightarrow> error + (flt list \<times> 's controller)" where
  \<comment> \<open>decorated with \<open>apply_callbacks\<close>\<close>
  "Predictive_compute_action env self observation is_critic_update time observation_target =
     bindE (Predictive_before_optimize env self observation observation_target)
       (\<lambda>s0. let s1 = critic_optimized env time s0
         in if critic_status (ctl_critic s1) = Accepted then
              bindE (invoke_safe_action env observation (critic_weights_updated s1))
                (\<lambda>s2. let s3 = actor_optimized env time s2
                       in if actor_status (ctl_actor s3) = Accepted
                          then Inr (Predictive_accept env s3)
                          else fallback env observation s3)
            else fallback env observation s1)"

definition compute_action ::
  "'s env \<Rightarrow> 's controller \<Rightarrow> flt list \<Rightarrow> bool \<Rightarrow> real \<Rightarrow> flt list
     \<Rightarrow> error + (flt list \<times> 's controller)" where
  \<comment> \<open>\<open>self.compute_action\<close>, the method of the object's class\<close>
  "compute_action env self observation is_critic_update time observation_target =
     (case ctl_kind self of
        RLController \<Rightarrow>
          RLController_compute_action env self observation is_critic_update time observation_target
      | CALFControllerExPost \<Rightarrow>
          ExPost_compute_action env self observation is_critic_update time observation_target
      | CALFControllerPredictive \<Rightarrow>
          Predictive_compute_action env self observation is_critic_update time observation_target)"

definition check_clocks :: "'s controller \<Rightarrow> real \<Rightarrow> flt list \<Rightarrow> 's controller" where
  \<comment> \<open>the state after the first three statements of \<open>Controller.compute_action_sampled\<close>:
      the target is stored and both clocks have been asked\<close>
  "check_clocks self time observation_target =
     self\<lparr>ctl_observation_target := observation_target,
          ctl_clock := snd (check_time (ctl_clock self) time),
          ctl_critic := (ctl_critic self)
            \<lparr>critic_clock := snd (check_time (critic_clock (ctl_critic self)) time)\<rparr>\<rparr>"

definition Controller_compute_action_sampled ::
  "'s env \<Rightarrow> 's controller \<Rightarrow> real \<Rightarrow> flt list \<Rightarrow> flt list
     \<Rightarrow> error + (flt list \<times> 's controller)" where
  \<comment> \<open>\<open>Controller.compute_action_sampled\<close> with its decorator \<open>apply_action_bounds\<close>; the
      argument \<open>constraints\<close> is not used\<close>
  "Controller_compute_action_sampled env self time observation observation_target =
     (let is_time_for_new_sample = fst (check_time (ctl_clock self) time);
          is_time_for_critic_update = fst (check_time (critic_clock (ctl_critic self)) time);
          is_critic_update = (is_time_for_critic_update \<and> \<not> ctl_is_fixed_critic_weights self);
          s = check_clocks self time observation_target
      in bindE (if is_time_for_new_sample
                then bindE (compute_action env s observation is_critic_update time
                              observation_target)
                       (\<lambda>r. Inr (snd r))
                else Inr s)
           (\<lambda>s3. bindE (apply_action_bounds (ctl_action_bounds s3) (actor_action (ctl_actor s3)))
                    (\<lambda>action. Inr (action, s3\<lparr>ctl_action := action\<rparr>))))"

definition compute_action_sampled ::
  "'s env \<Rightarrow> 's controller \<Rightarrow> real \<Rightarrow> flt list \<Rightarrow> flt list
     \<Rightarrow> error + (flt list \<times> 's controller)" where
  \<comment> \<open>\<open>self.compute_action_sampled\<close>: the constructor of \<open>CALFControllerExPost\<close> (inherited
      by \<open>CALFControllerPredictive\<close>) replaces the attribute by the bound method of the
      safe controller when \<open>safe_only\<close> is set\<close>
  "compute_action_sampled env self time observation observation_target =
     (if ctl_kind self \<noteq> RLController \<and> ctl_safe_only self then
        bindE (safe_compute_action_sampled env (actor_safe_controller (ctl_actor self))
                 time observation observation_target)
          (\<lambda>(action, sc).
             Inr (action, self\<lparr>ctl_actor := (ctl_actor self)\<lparr>actor_safe_controller := sc\<rparr>\<rparr>))
      else Controller_compute_action_sampled env self time observation observation_target)"

section \<open>Controller3WRobotDisassembledCLF\<close>

text \<open>
  The vectors \<open>xNI\<close>, \<open>eta\<close>, \<open>uNI\<close> and the gradients are arrays of a fixed size made
  by \<open>rc.zeros\<close>: they are tuples here. An observation comes from the caller, and reading
  a coordinate it does not have raises \<open>IndexError\<close>. The minimizer of \<open>theta\<close> (SciPy or
  CasADi) is a parameter that returns an angle: a call of the library that raises instead
  is not modelled, and what is said below of \<open>compute_action\<close> is said of calls that
  return.
\<close>

record clf =
  clf_m :: real
  clf_I :: real
  clf_controller_gain :: real
  clf_action_bounds :: bounds
  clf_controller_clock :: real
  clf_sampling_time :: real
  clf_clock :: clock
  clf_action_old :: "flt list"
  clf_action :: "flt list"

definition Controller3WRobotDisassembledCLF ::
  "real \<Rightarrow> real \<Rightarrow> real \<Rightarrow> bounds \<Rightarrow> real \<Rightarrow> real \<Rightarrow> clf" where
  \<comment> \<open>the constructor, which stores \<open>action_bounds\<close> as given; the attribute \<open>action\<close>
      exists only after the first \<open>compute_action\<close> and is not read before\<close>
  "Controller3WRobotDisassembledCLF m I controller_gain action_bounds time_start sampling_time =
     \<lparr>clf_m = m, clf_I = I, clf_controller_gain = controller_gain,
      clf_action_bounds = action_bounds, clf_controller_clock = time_start,
      clf_sampling_time = sampling_time, clf_clock = Clock sampling_time time_start,
      clf_action_old = zeros 2, clf_action = []\<rparr>"

definition nablaF :: "flt \<times> flt \<times> flt \<Rightarrow> flt \<Rightarrow> flt \<times> flt \<times> flt" where
  \<comment> \<open>the gradient \<open>nablaF\<close>, written the same way in both \<open>_zeta\<close>\<close>
  "nablaF xNI theta =
     (case xNI of (x0, x1, x2) \<Rightarrow>
        let sigma_tilde = x0 * fcos theta + x1 * fsin theta + fsqrt \<bar>x2\<bar>
        in (Fin 4 * x0 ^ 3 - Fin 2 * \<bar>x2\<bar> ^ 3 * fcos theta / sigma_tilde ^ 3,
            Fin 4 * x1 ^ 3 - Fin 2 * \<bar>x2\<bar> ^ 3 * fsin theta / sigma_tilde ^ 3,
            (Fin 3 * x0 * fcos theta + Fin 3 * x1 * fsin theta + Fin 2 * fsqrt \<bar>x2\<bar>)
              * x2 ^ 2 * sgn x2 / sigma_tilde ^ 3))"

definition CLF_zeta :: "flt \<times> flt \<times> flt \<Rightarrow> flt \<Rightarrow> flt \<times> flt \<times> flt" where
  "CLF_zeta xNI theta = nablaF xNI theta"

definition dot3 :: "flt \<times> flt \<times> flt \<Rightarrow> flt \<times> flt \<times> flt \<Rightarrow> flt" where
  "dot3 u v = (case u of (u0, u1, u2) \<Rightarrow> case v of (v0, v1, v2) \<Rightarrow> u0 * v0 + u1 * v1 + u2 * v2)"

definition kappa_of :: "flt \<times> flt \<times> flt \<Rightarrow> flt \<times> flt \<times> flt \<Rightarrow> flt \<times> flt" where
  \<comment> \<open>the body of both \<open>_kappa\<close> after \<open>zeta_val\<close> is known: the columns of \<open>G\<close> are
      \<open>[1, 0, xNI[1]]\<close> and \<open>[0, 1, -xNI[0]]\<close>\<close>
  "kappa_of xNI zeta_val =
     (case xNI of (x0, x1, x2) \<Rightarrow>
        let G0 = (Fin 1, Fin 0, x1);
            G1 = (Fin 0, Fin 1, - x0)
        in ((- fcbrt \<bar>dot3 zeta_val G0\<bar>) * sgn (dot3 zeta_val G0),
            (- fcbrt \<bar>dot3 zeta_val G1\<bar>) * sgn (dot3 zeta_val G1)))"

definition CLF_kappa :: "flt \<times> flt \<times> flt \<Rightarrow> flt \<Rightarrow> flt \<times> flt" where
  "CLF_kappa xNI theta = kappa_of xNI (CLF_zeta xNI theta)"

fun CLF_Cart2NH :: "flt list \<Rightarrow> error + ((flt \<times> flt \<times> flt) \<times> (flt \<times> flt))" where
  "CLF_Cart2NH (xc # yc # angle # v # omega # rest) =
     Inr ((angle,
           xc * fcos angle + yc * fsin angle,
           (- Fin 2) * (yc * fcos angle - xc * fsin angle)
             - angle * (xc * fcos angle + yc * fsin angle)),
          (omega, (yc * fcos angle - xc * fsin angle) * omega + v))"
| "CLF_Cart2NH coords_Cart = Inl IndexError"

definition CLF_NH2ctrl_Cart ::
  "clf \<Rightarrow> flt \<times> flt \<times> flt \<Rightarrow> flt \<times> flt \<Rightarrow> flt \<times> flt \<Rightarrow> flt list" where
  "CLF_NH2ctrl_Cart self xNI eta uNI =
     (case xNI of (x0, x1, x2) \<Rightarrow> case eta of (eta0, eta1) \<Rightarrow> case uNI of (u0, u1) \<Rightarrow>
        [Fin (clf_m self) * (u1 + x1 * eta0 ^ 2 + Fin (1 / 2) * (x0 * x1 * u0 + u0 * x2)),
         Fin (clf_I self) * u0])"

definition CLF_compute_action ::
  "(flt \<times> flt \<times> flt \<Rightarrow> flt \<times> flt \<Rightarrow> flt) \<Rightarrow> clf \<Rightarrow> flt list \<Rightarrow> error + (flt list \<times> clf)" where
  \<comment> \<open>decorated with \<open>apply_action_bounds\<close>\<close>
  "CLF_compute_action minimizer_theta self observation =
     bindE (CLF_Cart2NH observation)
       (\<lambda>(xNI, eta).
          let theta_star = minimizer_theta xNI eta;
              kappa_val = CLF_kappa xNI theta_star;
              z = (fst eta - fst kappa_val, snd eta - snd kappa_val);
              uNI = ((- Fin (clf_controller_gain self)) * fst z,
                     (- Fin (clf_controller_gain self)) * snd z);
              action = CLF_NH2ctrl_Cart self xNI eta uNI;
              s1 = self\<lparr>clf_action_old := action\<rparr>
          in bindE (apply_action_bounds (clf_action_bounds s1) action)
               (\<lambda>clipped. Inr (clipped, s1\<lparr>clf_action := clipped\<rparr>)))"

definition CLF_compute_action_sampled ::
  "(flt \<times> flt \<times> flt \<Rightarrow> flt \<times> flt \<Rightarrow> flt) \<Rightarrow> clf \<Rightarrow> real \<Rightarrow> flt list
     \<Rightarrow> error + (flt list \<times> clf)" where
  "CLF_compute_action_sampled minimizer_theta self time observation =
     (let is_time_for_new_sample = fst (check_time (clf_clock self) time);
          s1 = self\<lparr>clf_clock := snd (check_time (clf_clock self) time)\<rparr>
      in if is_time_for_new_sample then
           bindE (CLF_compute_action minimizer_theta s1 observation)
             (\<lambda>(action, s2). Inr (action, s2\<lparr>clf_action_old := action\<rparr>))
         else Inr (clf_action_old s1, s1))"

definition CLF_reset :: "clf \<Rightarrow> clf" where
  "CLF_reset self = self\<lparr>clf_action_old := zeros 2\<rparr>"

section \<open>Controller3WRobotNIDisassembledCLF\<close>

record ni =
  ni_controller_gain :: real
  ni_action_bounds :: bounds
  ni_controller_clock :: real
  ni_time_start :: real
  ni_sampling_time :: real
  ni_Ls :: "flt list"
  ni_times :: "real list"
  ni_action_old :: "flt list"
  ni_clock :: clock
  ni_action :: "flt list"


definition nablaL :: "flt \<times> flt \<times> flt \<Rightarrow> flt \<times> flt \<times> flt" where
  "nablaL xNI =
     (case xNI of (x0, x1, x2) \<Rightarrow>
        let sigma = fsqrt (x0 ^ 2 + x1 ^ 2) + fsqrt \<bar>x2\<bar>
        in (Fin 4 * x0 ^ 3
              + \<bar>x2\<bar> ^ 3 / sigma ^ 3 * Fin 1 / fsqrt (x0 ^ 2 + x1 ^ 2) ^ 3 * Fin 2 * x0,
            Fin 4 * x1 ^ 3
              + \<bar>x2\<bar> ^ 3 / sigma ^ 3 * Fin 1 / fsqrt (x0 ^ 2 + x1 ^ 2) ^ 3 * Fin 2 * x1,
            Fin 3 * \<bar>x2\<bar> ^ 2 * sgn x2
              + \<bar>x2\<bar> ^ 3 / sigma ^ 3 * Fin 1 / fsqrt \<bar>x2\<bar> * sgn x2))"

definition NI_zeta :: "flt \<times> flt \<times> flt \<Rightarrow> flt \<times> flt \<times> flt" where
  \<comment> \<open>both gradients are computed; the test \<open>xNI[0] == 0 and xNI[1] == 0\<close> chooses\<close>
  "NI_zeta xNI =
     (let theta = Fin 0
      in if fst xNI = Fin 0 \<and> fst (snd xNI) = Fin 0 then nablaF xNI theta else nablaL xNI)"

definition NI_kappa :: "flt \<times> flt \<times> flt \<Rightarrow> flt \<times> flt" where
  "NI_kappa xNI = kappa_of xNI (NI_zeta xNI)"

fun NI_Cart2NH :: "flt list \<Rightarrow> error + (flt \<times> flt \<times> flt)" where
  "NI_Cart2NH (xc # yc # angle # rest) =
     Inr (angle,
          xc * fcos angle + yc * fsin angle,
          (- Fin 2) * (yc * fcos angle - xc * fsin angle)
            - angle * (xc * fcos angle + yc * fsin angle))"
| "NI_Cart2NH coords_Cart = Inl IndexError"

definition NI_NH2ctrl_Cart :: "flt \<times> flt \<times> flt \<Rightarrow> flt \<times> flt \<Rightarrow> flt list" where
  "NI_NH2ctrl_Cart xNI uNI =
     (case xNI of (x0, x1, x2) \<Rightarrow> case uNI of (u0, u1) \<Rightarrow>
        [u1 + Fin (1 / 2) * u0 * (x2 + x0 * x1), u0])"

definition NI_compute_LF :: "ni \<Rightarrow> flt list \<Rightarrow> error + (flt \<times> ni)" where
  "NI_compute_LF self observation =
     bindE (NI_Cart2NH observation)
       (\<lambda>(x0, x1, x2).
          let sigma = fsqrt (x0 ^ 2 + x1 ^ 2) + fsqrt \<bar>x2\<bar>;
              LF_value = x0 ^ 4 + x1 ^ 4 + \<bar>x2\<bar> ^ 3 / sigma ^ 2
          in Inr (LF_value, self\<lparr>ni_Ls := ni_Ls self @ [LF_value]\<rparr>))"

definition NI_compute_action :: "ni \<Rightarrow> flt list \<Rightarrow> error + (flt list \<times> ni)" where
  \<comment> \<open>decorated with \<open>apply_action_bounds\<close>\<close>
  "NI_compute_action self observation =
     bindE (NI_Cart2NH observation)
       (\<lambda>xNI.
          let kappa_val = NI_kappa xNI;
              uNI = (Fin (ni_controller_gain self) * fst kappa_val,
                     Fin (ni_controller_gain self) * snd kappa_val);
              action = NI_NH2ctrl_Cart xNI uNI;
              s1 = self\<lparr>ni_action := action, ni_action_old := action\<rparr>
          in bindE (NI_compute_LF s1 observation)
               (\<lambda>(LF_value, s2).
                  bindE (apply_action_bounds (ni_action_bounds s2) action)
                    (\<lambda>clipped. Inr (clipped, s2\<lparr>ni_action := clipped\<rparr>))))"

definition NI_compute_action_sampled ::
  "ni \<Rightarrow> real \<Rightarrow> flt list \<Rightarrow> error + (flt list \<times> ni)" where
  "NI_compute_action_sampled self time observation =
     (let is_time_for_new_sample = fst (check_time (ni_clock self) time);
          s1 = self\<lparr>ni_clock := snd (check_time (ni_clock self) time)\<rparr>
      in if is_time_for_new_sample then
           bindE (NI_compute_action s1 observation)
             (\<lambda>(action, s2). Inr (action, s2\<lparr>ni_times := ni_times s2 @ [time],
                                              ni_action_old := action\<rparr>))
         else Inr (ni_action_old s1, s1))"

definition NI_reset :: "ni \<Rightarrow> ni" where
  "NI_reset self = self\<lparr>ni_controller_clock := ni_time_start self, ni_action_old := zeros 2\<rparr>"

section \<open>ControllerKinPoint\<close>

record kinpoint =
  kp_action_bounds :: bounds
  kp_gain :: real
  kp_controller_clock :: real
  kp_sampling_time :: real
  kp_Ls :: "flt list"
  kp_times :: "real list"
  kp_action_old :: "flt list"
  kp_clock :: clock
  kp_time_start :: real
  kp_action :: "flt list"

definition ControllerKinPoint :: "real \<Rightarrow> real \<Rightarrow> real \<Rightarrow> bounds \<Rightarrow> kinpoint" where
  \<comment> \<open>the constructor; the attribute \<open>action\<close> exists only after the first
      \<open>compute_action\<close> and is not read before\<close>
  "ControllerKinPoint gain time_start sampling_time action_bounds =
     \<lparr>kp_action_bounds = init_action_bounds action_bounds, kp_gain = gain,
      kp_controller_clock = time_start, kp_sampling_time = sampling_time,
      kp_Ls = [], kp_times = [], kp_action_old = zeros 2,
      kp_clock = Clock sampling_time time_start, kp_time_start = time_start,
      kp_action = []\<rparr>"

definition KinPoint_compute_action :: "kinpoint \<Rightarrow> flt list \<Rightarrow> error + (flt list \<times> kinpoint)" where
  \<comment> \<open>\<open>-self.gain * observation\<close>, decorated with \<open>apply_action_bounds\<close>\<close>
  "KinPoint_compute_action self observation =
     bindE (apply_action_bounds (kp_action_bounds self)
              (map (\<lambda>x. (- Fin (kp_gain self)) * x) observation))
       (\<lambda>clipped. Inr (clipped, self\<lparr>kp_action := clipped\<rparr>))"

definition KinPoint_compute_action_sampled ::
  "kinpoint \<Rightarrow> real \<Rightarrow> flt list \<Rightarrow> flt list \<Rightarrow> error + (flt list \<times> kinpoint)" where
  "KinPoint_compute_action_sampled self time observation observation_target =
     (let is_time_for_new_sample = fst (check_time (kp_clock self) time);
          s1 = self\<lparr>kp_clock := snd (check_time (kp_clock self) time)\<rparr>
      in if is_time_for_new_sample then
           bindE (KinPoint_compute_action (s1\<lparr>kp_controller_clock := time\<rparr>) observation)
             (\<lambda>(action, s2). Inr (action, s2\<lparr>kp_times := kp_times s2 @ [time],
                                              kp_action_old := action\<rparr>))
         else Inr (kp_action_old s1, s1))"

section \<open>Sequences of calls\<close>

text \<open>
  The driver calls \<open>compute_action_sampled\<close> once per tick with a time, an observation
  and a target, and an exception ends the run. The actions it receives from a controller,
  and those it receives from a safe controller called directly:
\<close>

fun run_controller ::
  "'s env \<Rightarrow> 's controller \<Rightarrow> (real \<times> flt list \<times> flt list) list \<Rightarrow> (error + flt list) list" where
  "run_controller env self [] = []"
| "run_controller env self ((time, observation, observation_target) # rest) =
     (case compute_action_sampled env self time observation observation_target of
        Inl e \<Rightarrow> [Inl e]
      | Inr (action, s) \<Rightarrow> Inr action # run_controller env s rest)"

fun run_safe_controller ::
  "'s env \<Rightarrow> 's \<Rightarrow> (real \<times> flt list \<times> flt list) list \<Rightarrow> (error + flt list) list" where
  "run_safe_controller env sc [] = []"
| "run_safe_controller env sc ((time, observation, observation_target) # rest) =
     (case safe_compute_action_sampled env sc time observation observation_target of
        Inl e \<Rightarrow> [Inl e]
      | Inr (action, sc') \<Rightarrow> Inr action # run_safe_controller env sc' rest)"

section \<open>A closed loop for evaluation\<close>

text \<open>
  A CALF controller around a \<open>ControllerKinPoint\<close> of gain 1 without bounds, with two
  channels, a critic buffer of three rows and solvers that answer with fixed candidates
  and the given acceptance statuses.
\<close>

definition example_env :: "status \<Rightarrow> status \<Rightarrow> kinpoint env" where
  "example_env critic_result actor_result =
     \<lparr>critic_solver = (\<lambda>c t. ([Fin 5], critic_result)),
      actor_solver = (\<lambda>a c t. ([Fin 3, Fin 4], actor_result)),
      running_objective = (\<lambda>a ob act. Fin 1),
      critic_model = (\<lambda>w ob. Fin 7),
      actor_model = (\<lambda>w ob. w),
      safe_compute_action = KinPoint_compute_action,
      safe_compute_action_sampled = KinPoint_compute_action_sampled\<rparr>"

definition example_actor :: "status \<Rightarrow> kinpoint actor" where
  "example_actor st =
     \<lparr>actor_observation = [], actor_target = [], actor_action = zeros 2,
      actor_action_old = zeros 2, actor_action_init = zeros 2,
      actor_weights = zeros 2, actor_optimized_weights = zeros 2, actor_status = st,
      actor_safe_controller = ControllerKinPoint 1 0 (1 / 10) PyNone\<rparr>"

definition example_critic :: "status \<Rightarrow> critic" where
  "example_critic st =
     \<lparr>critic_buffer = [], critic_capacity = 3, critic_target = [],
      critic_weights = [Fin 1], critic_weights_old = [Fin 1],
      critic_optimized_weights = [Fin 1], critic_status = st,
      critic_observation_last_good = [], critic_r_prev = Fin 0, critic_CALFs = [Fin 9],
      critic_clock = Clock (1 / 10) 0\<rparr>"

definition example_controller :: "kind \<Rightarrow> status \<Rightarrow> status \<Rightarrow> kinpoint controller" where
  "example_controller k critic_st actor_st =
     \<lparr>ctl_kind = k, ctl_controller_clock = 0, ctl_sampling_time = 1 / 10,
      ctl_observation_target = zeros 2, ctl_is_fixed_critic_weights = False,
      ctl_clock = Clock (1 / 10) 0, ctl_actor = example_actor actor_st,
      ctl_critic = example_critic critic_st, ctl_action_bounds = Rows [],
      ctl_critic_clock = 0, ctl_critic_period = 1 / 10, ctl_weights_difference_norms = [],
      ctl_action = [], ctl_safe_only = False\<rparr>"

definition same_config :: "'s controller \<Rightarrow> 's controller \<Rightarrow> bool" where
  "same_config s s' =
     (ctl_kind s' = ctl_kind s \<and> ctl_controller_clock s' = ctl_controller_clock s \<and>
      ctl_sampling_time s' = ctl_sampling_time s \<and>
      ctl_observation_target s' = ctl_observation_target s \<and>
      ctl_is_fixed_critic_weights s' = ctl_is_fixed_critic_weights s \<and>
      ctl_clock s' = ctl_clock s \<and> ctl_action_bounds s' = ctl_action_bounds s \<and>
      ctl_critic_clock s' = ctl_critic_clock s \<and> ctl_critic_period s' = ctl_critic_period s \<and>
      ctl_weights_difference_norms s' = ctl_weights_difference_norms s \<and>
      ctl_safe_only s' = ctl_safe_only s)"


definition example_theta :: "flt \<times> flt \<times> flt \<Rightarrow> flt \<times> flt \<Rightarrow> flt" where
  \<comment> \<open>a minimizer that stays at its initial guess \<open>thetaInit = 0\<close>\<close>
  "example_theta xNI eta = Fin 0"

text \<open>What the fallback leaves: the sample that started in \<open>self\<close> ended in \<open>s'\<close> with the
  action \<open>a\<close> of the safe controller and without the candidates.\<close>

abbreviation fallback_outcome ::
  "'s env \<Rightarrow> 's controller \<Rightarrow> flt list \<Rightarrow> flt list \<Rightarrow> 's controller \<Rightarrow> bool" where
  "fallback_outcome env self observation a s' \<equiv>
     (\<exists>rel sc0 sc1.
        vec_sub observation (ctl_observation_target self) = Inr rel \<and>
        (sc0 = actor_safe_controller (ctl_actor self) \<or>
         (\<exists>a0. safe_compute_action env (actor_safe_controller (ctl_actor self)) rel
                 = Inr (a0, sc0))) \<and>
        safe_compute_action env sc0 rel = Inr (a, sc1) \<and>
        actor_safe_controller (ctl_actor s') = sc1 \<and>
        actor_action (ctl_actor s') = a \<and>
        actor_weights (ctl_actor s') = a \<and>
        critic_weights (ctl_critic s') = critic_weights_old (ctl_critic self) \<and>
        critic_weights_old (ctl_critic s') = critic_weights_old (ctl_critic self))"

section \<open>Evaluation of floats and of sequenced calls\<close>

lemma plus_flt_simps [simp]:
  "Fin a + Fin b = Fin (a + b)" "NotFinite + y = NotFinite" "x + NotFinite = NotFinite"
  by (simp_all add: plus_flt_def flift2_def split: flt.splits)

lemma minus_flt_simps [simp]:
  "Fin a - Fin b = Fin (a - b)" "NotFinite - y = NotFinite" "x - NotFinite = NotFinite"
  by (simp_all add: minus_flt_def flift2_def split: flt.splits)

lemma times_flt_simps [simp]:
  "Fin a * Fin b = Fin (a * b)" "NotFinite * y = NotFinite" "x * NotFinite = NotFinite"
  by (simp_all add: times_flt_def flift2_def split: flt.splits)

lemma divide_flt_simps [simp]:
  "Fin a / Fin b = (if b = 0 then NotFinite else Fin (a / b))"
  "NotFinite / y = NotFinite" "x / NotFinite = NotFinite"
  by (simp_all add: divide_flt_def split: flt.splits)

lemma unary_flt_simps [simp]:
  "- Fin a = Fin (- a)" "- NotFinite = NotFinite"
  "\<bar>Fin a\<bar> = Fin \<bar>a\<bar>" "\<bar>NotFinite\<bar> = NotFinite"
  "sgn (Fin a) = Fin (sgn a)" "sgn NotFinite = NotFinite"
  by (simp_all add: uminus_flt_def abs_flt_def sgn_flt_def flift_def)

lemma fun_flt_simps [simp]:
  "fcos (Fin a) = Fin (cos a)" "fcos NotFinite = NotFinite"
  "fsin (Fin a) = Fin (sin a)" "fsin NotFinite = NotFinite"
  "fsqrt (Fin a) = (if a < 0 then NotFinite else Fin (sqrt a))" "fsqrt NotFinite = NotFinite"
  "fcbrt (Fin a) = (if a < 0 then NotFinite else Fin (a powr (1 / 3)))" "fcbrt NotFinite = NotFinite"
  by (simp_all add: fcos_def fsin_def fsqrt_def fcbrt_def flift_def)

lemma power_flt_Fin [simp]: "Fin a ^ n = Fin (a ^ n)"
  by (induction n) (simp_all add: one_flt_def)

lemma power_flt_NotFinite [simp]: "0 < n \<Longrightarrow> NotFinite ^ n = NotFinite"
  by (cases n) simp_all

lemma is_finite_simps [simp]: "is_finite (Fin a)" "\<not> is_finite NotFinite"
  by (simp_all add: is_finite_def)

lemma bindE_simps [simp]: "bindE (Inl e) f = Inl e" "bindE (Inr x) f = f x"
  by (simp_all add: bindE_def)

lemma bindE_eq_Inr: "bindE m f = Inr r \<longleftrightarrow> (\<exists>x. m = Inr x \<and> f x = Inr r)"
  by (cases m) simp_all

lemma apply_action_bounds_None: "apply_action_bounds PyNone action = Inl TypeError"
  by (simp add: apply_action_bounds_def)

lemma clip1_within: "lo \<le> hi \<Longrightarrow> clip1 (Fin x) (lo, hi) = Fin y \<Longrightarrow> lo \<le> y \<and> y \<le> hi"
  by (auto simp: clip1_def flift_def)

section \<open>Stages of one sample\<close>

lemma invoke_safe_action_Inr:
  "invoke_safe_action env observation self = Inr s' \<longleftrightarrow>
     (\<exists>rel action sc.
        vec_sub observation (ctl_observation_target self) = Inr rel \<and>
        safe_compute_action env (actor_safe_controller (ctl_actor self)) rel = Inr (action, sc) \<and>
        s' = self\<lparr>ctl_actor :=
                  model_update_and_cache_weights action
                    (set_action action ((ctl_actor self)\<lparr>actor_safe_controller := sc\<rparr>)),
                ctl_critic := (restore_weights (ctl_critic self))
                  \<lparr>critic_r_prev := critic_r_prev (restore_weights (ctl_critic self))
                     + running_objective env
                         (model_update_and_cache_weights action
                            (set_action action ((ctl_actor self)\<lparr>actor_safe_controller := sc\<rparr>)))
                         observation action\<rparr>\<rparr>)"
  unfolding invoke_safe_action_def Let_def bindE_eq_Inr
  by (simp add: split_def) (metis prod.collapse fst_conv snd_conv)

lemma fallback_Inr:
  "fallback env observation self = Inr (a, s') \<longleftrightarrow>
     invoke_safe_action env observation self = Inr s' \<and> a = actor_action (ctl_actor s')"
  by (auto simp: fallback_def bindE_eq_Inr)

lemma ExPost_compute_action_Inr:
  "ExPost_compute_action env self observation icu time tgt = Inr r \<longleftrightarrow>
     (let s1 = critic_optimized env time (ExPost_before_optimize self observation tgt)
      in if critic_status (ctl_critic s1) = Accepted then
           (\<exists>s2. invoke_safe_action env observation (critic_weights_updated s1) = Inr s2 \<and>
              (if actor_status (ctl_actor (actor_optimized env time s2)) = Accepted
               then r = ExPost_accept env observation (actor_optimized env time s2)
               else fallback env observation (actor_optimized env time s2) = Inr r))
         else fallback env observation s1 = Inr r)"
  by (auto simp: ExPost_compute_action_def Let_def bindE_eq_Inr)

lemma Predictive_compute_action_Inr:
  "Predictive_compute_action env self observation icu time tgt = Inr r \<longleftrightarrow>
     (\<exists>s0. Predictive_before_optimize env self observation tgt = Inr s0 \<and>
        (let s1 = critic_optimized env time s0
         in if critic_status (ctl_critic s1) = Accepted then
              (\<exists>s2. invoke_safe_action env observation (critic_weights_updated s1) = Inr s2 \<and>
                 (if actor_status (ctl_actor (actor_optimized env time s2)) = Accepted
                  then r = Predictive_accept env (actor_optimized env time s2)
                  else fallback env observation (actor_optimized env time s2) = Inr r))
            else fallback env observation s1 = Inr r))"
  by (auto simp: Predictive_compute_action_def Let_def bindE_eq_Inr)

lemma apply_action_bounds_Rows_Inr:
  "apply_action_bounds (Rows rows) action = Inr a' \<Longrightarrow> rows \<noteq> [] \<Longrightarrow>
     length rows = length action \<Longrightarrow> a' = map2 clip1 action rows"
  by (simp add: apply_action_bounds_def np_clip_def broadcast_def)

lemma map2_clip1_within:
  "length action = length rows \<Longrightarrow> finite_vec action \<Longrightarrow>
   list_all (\<lambda>lh. fst lh \<le> snd lh) rows \<Longrightarrow>
     within_bounds (map2 clip1 action rows) rows"
proof (induction action rows rule: list_induct2)
  case Nil
  then show ?case by (simp add: within_bounds_def)
next
  case (Cons a action r rows)
  then show ?case
    by (cases a) (auto simp: within_bounds_def finite_vec_def clip1_def flift_def)
qed

lemma apply_action_bounds_within:
  assumes "apply_action_bounds (Rows rows) action = Inr a'" and "rows \<noteq> []"
    and "length rows = length action" and "finite_vec action"
    and "list_all (\<lambda>lh. fst lh \<le> snd lh) rows"
  shows "within_bounds a' rows"
proof -
  have "a' = map2 clip1 action rows"
    using assms(1-3) by (rule apply_action_bounds_Rows_Inr)
  then show ?thesis
    using map2_clip1_within [of action rows] assms(3-5) by simp
qed

lemma apply_action_bounds_empty: "apply_action_bounds (Rows []) action = Inr action"
  by (simp add: apply_action_bounds_def)

lemma same_config_refl [simp]: "same_config s s"
  by (simp add: same_config_def)

lemma same_config_trans: "same_config s t \<Longrightarrow> same_config t u \<Longrightarrow> same_config s u"
  by (simp add: same_config_def)

lemma same_config_stages [simp]:
  "same_config s (critic_optimized env time s)"
  "same_config s (critic_weights_updated s)"
  "same_config s (actor_optimized env time s)"
  "same_config s (store_sample s observation tgt)"
  "same_config s (ExPost_before_optimize s observation tgt)"
  "same_config s (snd (ExPost_accept env observation s))"
  "same_config s (snd (Predictive_accept env s))"
  by (simp_all add: same_config_def critic_optimized_def critic_weights_updated_def
      actor_optimized_def store_sample_def ExPost_before_optimize_def ExPost_accept_def
      Predictive_accept_def Let_def)

lemma invoke_safe_action_config:
  "invoke_safe_action env observation s = Inr s' \<Longrightarrow> same_config s s'"
  by (auto simp: invoke_safe_action_Inr same_config_def)

lemma fallback_config:
  "fallback env observation s = Inr (a, s') \<Longrightarrow> same_config s s'"
  by (auto simp: fallback_Inr dest: invoke_safe_action_config)

lemma ExPost_compute_action_config:
  assumes "ExPost_compute_action env self observation icu time tgt = Inr (a, s')"
  shows "same_config self s'"
proof -
  let ?s1 = "critic_optimized env time (ExPost_before_optimize self observation tgt)"
  have s1: "same_config self ?s1"
    by (rule same_config_trans [OF same_config_stages(5) same_config_stages(1)])
  show ?thesis
  proof (cases "critic_status (ctl_critic ?s1) = Accepted")
    case False
    with assms have "fallback env observation ?s1 = Inr (a, s')"
      by (simp add: ExPost_compute_action_Inr)
    from same_config_trans [OF s1 fallback_config [OF this]] show ?thesis .
  next
    case True
    with assms obtain s2 where
      s2: "invoke_safe_action env observation (critic_weights_updated ?s1) = Inr s2" and
      r: "if actor_status (ctl_actor (actor_optimized env time s2)) = Accepted
          then (a, s') = ExPost_accept env observation (actor_optimized env time s2)
          else fallback env observation (actor_optimized env time s2) = Inr (a, s')"
      by (auto simp: ExPost_compute_action_Inr)
    have c2: "same_config self (actor_optimized env time s2)"
      using s1 invoke_safe_action_config [OF s2] same_config_stages(2) [of ?s1]
        same_config_stages(3) [of s2 env time]
      by (simp add: same_config_def)
    show ?thesis
    proof (cases "actor_status (ctl_actor (actor_optimized env time s2)) = Accepted")
      case True
      with r have "s' = snd (ExPost_accept env observation (actor_optimized env time s2))"
        by (metis snd_conv)
      then show ?thesis
        using c2 same_config_stages(6) [of "actor_optimized env time s2" env observation]
        by (simp add: same_config_def)
    next
      case False
      with r have "fallback env observation (actor_optimized env time s2) = Inr (a, s')"
        by simp
      from same_config_trans [OF c2 fallback_config [OF this]] show ?thesis .
    qed
  qed
qed

lemma Predictive_backfill_config:
  "Predictive_backfill env s observation tgt = Inr s' \<Longrightarrow> same_config s s'"
  unfolding Predictive_backfill_def Let_def
  by (auto simp: bindE_eq_Inr same_config_def split: if_splits)

lemma Predictive_before_optimize_config:
  "Predictive_before_optimize env s observation tgt = Inr s' \<Longrightarrow> same_config s s'"
  unfolding Predictive_before_optimize_def Let_def
  by (auto simp: bindE_eq_Inr same_config_def dest!: Predictive_backfill_config)

lemma Predictive_compute_action_config:
  assumes "Predictive_compute_action env self observation icu time tgt = Inr (a, s')"
  shows "same_config self s'"
proof -
  from assms obtain s0 where
    s0: "Predictive_before_optimize env self observation tgt = Inr s0" and
    r0: "if critic_status (ctl_critic (critic_optimized env time s0)) = Accepted then
           (\<exists>s2. invoke_safe_action env observation
                    (critic_weights_updated (critic_optimized env time s0)) = Inr s2 \<and>
              (if actor_status (ctl_actor (actor_optimized env time s2)) = Accepted
               then (a, s') = Predictive_accept env (actor_optimized env time s2)
               else fallback env observation (actor_optimized env time s2) = Inr (a, s')))
         else fallback env observation (critic_optimized env time s0) = Inr (a, s')"
    by (auto simp: Predictive_compute_action_Inr Let_def)
  let ?s1 = "critic_optimized env time s0"
  have s1: "same_config self ?s1"
    by (rule same_config_trans [OF Predictive_before_optimize_config [OF s0]
          same_config_stages(1)])
  show ?thesis
  proof (cases "critic_status (ctl_critic ?s1) = Accepted")
    case False
    with r0 have "fallback env observation ?s1 = Inr (a, s')" by simp
    from same_config_trans [OF s1 fallback_config [OF this]] show ?thesis .
  next
    case True
    with r0 obtain s2 where
      s2: "invoke_safe_action env observation (critic_weights_updated ?s1) = Inr s2" and
      r: "if actor_status (ctl_actor (actor_optimized env time s2)) = Accepted
          then (a, s') = Predictive_accept env (actor_optimized env time s2)
          else fallback env observation (actor_optimized env time s2) = Inr (a, s')"
      by auto
    have c2: "same_config self (actor_optimized env time s2)"
      using s1 invoke_safe_action_config [OF s2] same_config_stages(2) [of ?s1]
        same_config_stages(3) [of s2 env time]
      by (simp add: same_config_def)
    show ?thesis
    proof (cases "actor_status (ctl_actor (actor_optimized env time s2)) = Accepted")
      case True
      with r have "s' = snd (Predictive_accept env (actor_optimized env time s2))"
        by (metis snd_conv)
      then show ?thesis
        using c2 same_config_stages(7) [of "actor_optimized env time s2" env]
        by (simp add: same_config_def)
    next
      case False
      with r have "fallback env observation (actor_optimized env time s2) = Inr (a, s')"
        by simp
      from same_config_trans [OF c2 fallback_config [OF this]] show ?thesis .
    qed
  qed
qed

lemma RLController_compute_action_config:
  "RLController_compute_action env self observation icu time tgt = Inr (a, s') \<Longrightarrow>
     same_config self s'"
  unfolding RLController_compute_action_def Let_def
  by (auto simp: bindE_eq_Inr store_sample_def same_config_def split: if_splits)

lemma compute_action_config:
  "compute_action env self observation icu time tgt = Inr (a, s') \<Longrightarrow> same_config self s'"
  unfolding compute_action_def
  by (cases "ctl_kind self")
     (simp_all add: ExPost_compute_action_config Predictive_compute_action_config
        RLController_compute_action_config)


section \<open>Properties of the controllers\<close>

text \<open>
  C5. With \<open>action_bounds\<close> left as \<open>None\<close>, the default of \<open>RLController\<close>, no call of
  \<open>compute_action_sampled\<close> returns an action: the wrapper of \<open>apply_action_bounds\<close>
  takes \<open>None != []\<close> for configured bounds and raises on \<open>None[:, 0]\<close>. Only the empty
  list is the configuration without bounds (\<open>apply_action_bounds_empty\<close>); with rows
  \<open>low \<le> high\<close> of the action's length the result is within them
  (\<open>apply_action_bounds_within\<close>).
\<close>

theorem sampled_action_bounds_None_raises:
  "Controller_compute_action_sampled env (self\<lparr>ctl_action_bounds := PyNone\<rparr>)
     time observation observation_target \<noteq> Inr r"
proof (cases "fst (check_time (ctl_clock self) time)")
  case False
  then show ?thesis
    by (simp add: Controller_compute_action_sampled_def Let_def check_clocks_def
        apply_action_bounds_def)
next
  case True
  show ?thesis
  proof
    assume "Controller_compute_action_sampled env (self\<lparr>ctl_action_bounds := PyNone\<rparr>)
      time observation observation_target = Inr r"
    with True obtain icu a s3 where
      ca: "compute_action env (check_clocks (self\<lparr>ctl_action_bounds := PyNone\<rparr>) time
             observation_target) observation icu time observation_target = Inr (a, s3)" and
      ab: "bindE (apply_action_bounds (ctl_action_bounds s3) (actor_action (ctl_actor s3)))
             (\<lambda>action. Inr (action, s3\<lparr>ctl_action := action\<rparr>)) = Inr r"
      by (auto simp: Controller_compute_action_sampled_def Let_def bindE_eq_Inr)
    from compute_action_config [OF ca] have "ctl_action_bounds s3 = PyNone"
      by (simp add: same_config_def check_clocks_def)
    with ab show False by (simp add: apply_action_bounds_def)
  qed
qed

lemmas example_defs = example_env_def example_actor_def example_critic_def
  example_controller_def ControllerKinPoint_def Clock_def zeros_def init_action_bounds_def

lemma replicate_2 [simp]: "replicate 2 x = [x, x]"
  by (simp add: numeral_2_eq_2)

lemma vec_sub_2 [simp]: "vec_sub [a, b] [c, d] = Inr [a - c, b - d]"
  by (simp add: vec_sub_def broadcast_def)

lemma KinPoint_compute_action_unbounded [simp]:
  "kp_action_bounds s = Rows [] \<Longrightarrow>
     KinPoint_compute_action s ob =
       Inr (map (\<lambda>x. (- Fin (kp_gain s)) * x) ob,
            s\<lparr>kp_action := map (\<lambda>x. (- Fin (kp_gain s)) * x) ob\<rparr>)"
  by (simp add: KinPoint_compute_action_def apply_action_bounds_def)

text \<open>
  C4. A call of \<open>invoke_safe_action(observation)\<close> that returns has (a) reverted the
  critic's cached weights to the old snapshot, which it leaves as it was, (b) asked the
  safe controller for the action at \<open>observation - self.observation_target\<close>, (c) written
  that action into the actor's current-action slot (and into the weights of the actor's
  model), and (d) added the running objective of the observation and that action to
  \<open>critic.r_prev\<close>. The call returns exactly when the subtraction and the safe controller
  do (\<open>invoke_safe_action_Inr\<close>).
\<close>

theorem invoke_safe_action_effects:
  assumes "invoke_safe_action env observation self = Inr s'"
  shows "\<exists>rel action sc.
     vec_sub observation (ctl_observation_target self) = Inr rel \<and>
     safe_compute_action env (actor_safe_controller (ctl_actor self)) rel = Inr (action, sc) \<and>
     critic_weights (ctl_critic s') = critic_weights_old (ctl_critic self) \<and>
     critic_weights_old (ctl_critic s') = critic_weights_old (ctl_critic self) \<and>
     actor_action (ctl_actor s') = action \<and>
     actor_weights (ctl_actor s') = action \<and>
     actor_safe_controller (ctl_actor s') = sc \<and>
     critic_r_prev (ctl_critic s') =
       critic_r_prev (ctl_critic self) + running_objective env (ctl_actor s') observation action"
  using assms
  by (auto simp: invoke_safe_action_Inr restore_weights_def set_action_def
      model_update_and_cache_weights_def)

lemma example_invoke_returns:
  "\<exists>s'. invoke_safe_action (example_env cs as) [Fin 1, Fin 2] (example_controller k c a) = Inr s'"
  by (simp add: invoke_safe_action_Inr example_defs)

theorem invoke_safe_action_effects_witness:
  "\<exists>s'. invoke_safe_action (example_env Rejected Rejected) [Fin 1, Fin 2]
          (example_controller CALFControllerExPost Pending Pending) = Inr s' \<and>
        actor_action (ctl_actor s') = [Fin (- 1), Fin (- 2)] \<and>
        critic_weights (ctl_critic s') = [Fin 1] \<and>
        critic_r_prev (ctl_critic s') = Fin 1"
proof -
  let ?E = "example_env Rejected Rejected"
  let ?S = "example_controller CALFControllerExPost Pending Pending"
  obtain s' where r: "invoke_safe_action ?E [Fin 1, Fin 2] ?S = Inr s'"
    using example_invoke_returns by blast
  from invoke_safe_action_effects [OF r] obtain rel action sc where
    "vec_sub [Fin 1, Fin 2] (ctl_observation_target ?S) = Inr rel"
    "safe_compute_action ?E (actor_safe_controller (ctl_actor ?S)) rel = Inr (action, sc)"
    "critic_weights (ctl_critic s') = critic_weights_old (ctl_critic ?S)"
    "actor_action (ctl_actor s') = action"
    "critic_r_prev (ctl_critic s') =
       critic_r_prev (ctl_critic ?S) + running_objective ?E (ctl_actor s') [Fin 1, Fin 2] action"
    by blast
  then have "actor_action (ctl_actor s') = [Fin (- 1), Fin (- 2)] \<and>
        critic_weights (ctl_critic s') = [Fin 1] \<and> critic_r_prev (ctl_critic s') = Fin 1"
    by (auto simp: example_defs)
  with r show ?thesis by blast
qed

lemmas stage_defs = critic_optimized_def critic_weights_updated_def actor_optimized_def
  store_sample_def ExPost_before_optimize_def ExPost_accept_def Predictive_accept_def
  fallback_def critic_optimize_weights_def actor_optimize_weights_def update_weights_def
  cache_weights_def restore_weights_def update_buffers_def critic_update_target_def
  receive_observation_def actor_update_target_def update_and_cache_weights_def
  model_update_and_cache_weights_def update_action_def set_action_def push_buffer_def
  critic_call_def

text \<open>
  C3, as the code has it. \<open>invoke_safe_action\<close> adds to \<open>critic.r_prev\<close> on every call: two
  calls in a row, as in the branch of \<open>CALFControllerExPost.compute_action\<close> where the
  critic's weights are accepted and the actor's are not, add the running objective of the
  first fallback action and that of the second. The reverted critic weights and the
  snapshot are the same after the second call as after the first.
\<close>

theorem invoke_safe_action_twice_adds_twice:
  assumes "invoke_safe_action env observation self = Inr s1"
    and "invoke_safe_action env observation s1 = Inr s2"
  shows "critic_r_prev (ctl_critic s2) =
           critic_r_prev (ctl_critic self)
             + running_objective env (ctl_actor s1) observation (actor_action (ctl_actor s1))
             + running_objective env (ctl_actor s2) observation (actor_action (ctl_actor s2)) \<and>
         critic_weights (ctl_critic s2) = critic_weights (ctl_critic s1) \<and>
         critic_weights_old (ctl_critic s2) = critic_weights_old (ctl_critic s1)"
  using assms
  by (auto simp: invoke_safe_action_Inr restore_weights_def set_action_def
      model_update_and_cache_weights_def)

lemma example_invoke_twice_returns:
  "\<exists>s1 s2. invoke_safe_action (example_env cs as) [Fin 1, Fin 2] (example_controller k c a) = Inr s1
     \<and> invoke_safe_action (example_env cs as) [Fin 1, Fin 2] s1 = Inr s2"
  by (simp add: invoke_safe_action_Inr example_defs stage_defs)

theorem invoke_safe_action_twice_adds_twice_witness:
  "\<exists>s1 s2. invoke_safe_action (example_env Rejected Rejected) [Fin 1, Fin 2]
          (example_controller CALFControllerExPost Pending Pending) = Inr s1 \<and>
     invoke_safe_action (example_env Rejected Rejected) [Fin 1, Fin 2] s1 = Inr s2 \<and>
     critic_r_prev (ctl_critic s2) = Fin 2"
proof -
  let ?E = "example_env Rejected Rejected"
  let ?S = "example_controller CALFControllerExPost Pending Pending"
  obtain s1 s2 where r1: "invoke_safe_action ?E [Fin 1, Fin 2] ?S = Inr s1"
    and r2: "invoke_safe_action ?E [Fin 1, Fin 2] s1 = Inr s2"
    using example_invoke_twice_returns by blast
  from invoke_safe_action_twice_adds_twice [OF r1 r2]
  have "critic_r_prev (ctl_critic s2) = Fin 2"
    by (simp add: example_defs)
  with r1 r2 show ?thesis by blast
qed

text \<open>
  C3, as stated, fails: in the closed loop, whose running objective is constantly 1, one
  call leaves \<open>r_prev = 1\<close> and a second call \<open>r_prev = 2\<close>; the sample in which only the
  actor's weights are rejected ends with \<open>r_prev = 2\<close>, the sample in which the critic's
  are rejected with \<open>r_prev = 1\<close>.
\<close>

theorem invoke_safe_action_not_idempotent:
  "(\<exists>s1 s2. invoke_safe_action (example_env Accepted Rejected) [Fin 1, Fin 2]
          (example_controller CALFControllerExPost Pending Pending) = Inr s1 \<and>
      invoke_safe_action (example_env Accepted Rejected) [Fin 1, Fin 2] s1 = Inr s2 \<and>
      critic_r_prev (ctl_critic s1) = Fin 1 \<and> critic_r_prev (ctl_critic s2) = Fin 2) \<and>
   map_sum id (\<lambda>r. critic_r_prev (ctl_critic (snd r)))
     (ExPost_compute_action (example_env Accepted Rejected)
        (example_controller CALFControllerExPost Pending Pending) [Fin 1, Fin 2] False 0
        (zeros 2)) = Inr (Fin 2) \<and>
   map_sum id (\<lambda>r. critic_r_prev (ctl_critic (snd r)))
     (ExPost_compute_action (example_env Rejected Rejected)
        (example_controller CALFControllerExPost Pending Pending) [Fin 1, Fin 2] False 0
        (zeros 2)) = Inr (Fin 1)"
  by (simp add: invoke_safe_action_Inr ExPost_compute_action_def invoke_safe_action_def
      Let_def example_defs stage_defs)

lemma fallback_effects:
  assumes "fallback env observation s = Inr (a, s')"
  shows "\<exists>rel sc1.
           vec_sub observation (ctl_observation_target s) = Inr rel \<and>
           safe_compute_action env (actor_safe_controller (ctl_actor s)) rel = Inr (a, sc1) \<and>
           actor_safe_controller (ctl_actor s') = sc1 \<and>
           actor_action (ctl_actor s') = a \<and>
           actor_weights (ctl_actor s') = a \<and>
           critic_weights (ctl_critic s') = critic_weights_old (ctl_critic s) \<and>
           critic_weights_old (ctl_critic s') = critic_weights_old (ctl_critic s)"
  using assms
  by (auto simp: fallback_Inr invoke_safe_action_Inr restore_weights_def set_action_def
      model_update_and_cache_weights_def)

lemma invoke_safe_action_call:
  assumes "invoke_safe_action env observation s = Inr s'"
  shows "\<exists>rel a0.
           vec_sub observation (ctl_observation_target s) = Inr rel \<and>
           safe_compute_action env (actor_safe_controller (ctl_actor s)) rel
             = Inr (a0, actor_safe_controller (ctl_actor s'))"
  using assms
  by (auto simp: invoke_safe_action_Inr set_action_def model_update_and_cache_weights_def)

lemma invoke_safe_action_keeps:
  assumes "invoke_safe_action env observation s = Inr s'"
  shows "ctl_observation_target s' = ctl_observation_target s \<and>
         critic_weights_old (ctl_critic s') = critic_weights_old (ctl_critic s) \<and>
         critic_status (ctl_critic s') = critic_status (ctl_critic s) \<and>
         actor_status (ctl_actor s') = actor_status (ctl_actor s) \<and>
         critic_buffer (ctl_critic s') = critic_buffer (ctl_critic s) \<and>
         critic_optimized_weights (ctl_critic s') = critic_optimized_weights (ctl_critic s) \<and>
         actor_observation (ctl_actor s') = actor_observation (ctl_actor s)"
  using assms
  by (auto simp: invoke_safe_action_Inr restore_weights_def set_action_def
      model_update_and_cache_weights_def)

lemma ExPost_fallback:
  assumes r: "ExPost_compute_action env self observation icu time tgt = Inr (a, s')"
    and n: "\<not> (critic_status (ctl_critic s') = Accepted \<and> actor_status (ctl_actor s') = Accepted)"
  shows "fallback_outcome env self observation a s'"
proof -
  let ?s1 = "critic_optimized env time (ExPost_before_optimize self observation tgt)"
  have k1: "ctl_observation_target ?s1 = ctl_observation_target self"
    "critic_weights_old (ctl_critic ?s1) = critic_weights_old (ctl_critic self)"
    "actor_safe_controller (ctl_actor ?s1) = actor_safe_controller (ctl_actor self)"
    by (simp_all add: stage_defs)
  show ?thesis
  proof (cases "critic_status (ctl_critic ?s1) = Accepted")
    case False
    with r have "fallback env observation ?s1 = Inr (a, s')"
      by (simp add: ExPost_compute_action_Inr)
    from fallback_effects [OF this] k1 show ?thesis
      by auto
  next
    case True
    with r obtain s2 where
      s2: "invoke_safe_action env observation (critic_weights_updated ?s1) = Inr s2" and
      b: "if actor_status (ctl_actor (actor_optimized env time s2)) = Accepted
          then (a, s') = ExPost_accept env observation (actor_optimized env time s2)
          else fallback env observation (actor_optimized env time s2) = Inr (a, s')"
      by (auto simp: ExPost_compute_action_Inr)
    let ?s3 = "actor_optimized env time s2"
    from invoke_safe_action_keeps [OF s2] k1 True have k3:
      "ctl_observation_target ?s3 = ctl_observation_target self"
      "critic_weights_old (ctl_critic ?s3) = critic_weights_old (ctl_critic self)"
      "critic_status (ctl_critic ?s3) = Accepted"
      by (simp_all add: stage_defs)
    from invoke_safe_action_call [OF s2] k1 obtain rel a0 where first:
      "vec_sub observation (ctl_observation_target self) = Inr rel"
      "safe_compute_action env (actor_safe_controller (ctl_actor self)) rel
         = Inr (a0, actor_safe_controller (ctl_actor ?s3))"
      by (auto simp: stage_defs)
    show ?thesis
    proof (cases "actor_status (ctl_actor ?s3) = Accepted")
      case False
      with b have "fallback env observation ?s3 = Inr (a, s')" by simp
      from fallback_effects [OF this] k3 first show ?thesis
        by auto
    next
      case A: True
      with b have "s' = snd (ExPost_accept env observation ?s3)" by (metis snd_conv)
      with A k3 have "critic_status (ctl_critic s') = Accepted \<and>
          actor_status (ctl_actor s') = Accepted"
        by (simp add: ExPost_accept_def Let_def cache_weights_def update_action_def
            update_and_cache_weights_def)
      with n show ?thesis by simp
    qed
  qed
qed

lemma Predictive_backfill_keeps:
  assumes "Predictive_backfill env s observation tgt = Inr s'"
  shows "ctl_observation_target s' = ctl_observation_target s \<and>
         critic_weights_old (ctl_critic s') = critic_weights_old (ctl_critic s) \<and>
         critic_weights (ctl_critic s') = critic_weights (ctl_critic s) \<and>
         critic_buffer (ctl_critic s') = critic_buffer (ctl_critic s) \<and>
         actor_action (ctl_actor s') = actor_action (ctl_actor s) \<and>
         actor_safe_controller (ctl_actor s') = actor_safe_controller (ctl_actor s)"
  using assms unfolding Predictive_backfill_def Let_def
  by (auto simp: bindE_eq_Inr split: if_splits)

lemma Predictive_before_optimize_keeps:
  assumes "Predictive_before_optimize env self observation tgt = Inr s0"
  shows "ctl_observation_target s0 = ctl_observation_target self \<and>
         critic_weights_old (ctl_critic s0) = critic_weights_old (ctl_critic self) \<and>
         critic_weights (ctl_critic s0) = critic_weights (ctl_critic self) \<and>
         critic_buffer (ctl_critic s0) =
           push_buffer (critic_capacity (ctl_critic self))
             (observation, actor_action (ctl_actor self)) (critic_buffer (ctl_critic self)) \<and>
         actor_observation (ctl_actor s0) = observation \<and>
         actor_safe_controller (ctl_actor s0) = actor_safe_controller (ctl_actor self)"
  using assms unfolding Predictive_before_optimize_def Let_def
  by (auto simp: bindE_eq_Inr update_buffers_def critic_update_target_def
      actor_update_target_def receive_observation_def dest!: Predictive_backfill_keeps)

lemma Predictive_fallback:
  assumes r: "Predictive_compute_action env self observation icu time tgt = Inr (a, s')"
    and n: "\<not> (critic_status (ctl_critic s') = Accepted \<and> actor_status (ctl_actor s') = Accepted)"
  shows "fallback_outcome env self observation a s'"
proof -
  from r obtain s0 where
    s0: "Predictive_before_optimize env self observation tgt = Inr s0" and
    r0: "if critic_status (ctl_critic (critic_optimized env time s0)) = Accepted then
           (\<exists>s2. invoke_safe_action env observation
                    (critic_weights_updated (critic_optimized env time s0)) = Inr s2 \<and>
              (if actor_status (ctl_actor (actor_optimized env time s2)) = Accepted
               then (a, s') = Predictive_accept env (actor_optimized env time s2)
               else fallback env observation (actor_optimized env time s2) = Inr (a, s')))
         else fallback env observation (critic_optimized env time s0) = Inr (a, s')"
    by (auto simp: Predictive_compute_action_Inr Let_def)
  let ?s1 = "critic_optimized env time s0"
  from Predictive_before_optimize_keeps [OF s0] have k1:
    "ctl_observation_target ?s1 = ctl_observation_target self"
    "critic_weights_old (ctl_critic ?s1) = critic_weights_old (ctl_critic self)"
    "actor_safe_controller (ctl_actor ?s1) = actor_safe_controller (ctl_actor self)"
    by (simp_all add: critic_optimized_def critic_optimize_weights_def)
  show ?thesis
  proof (cases "critic_status (ctl_critic ?s1) = Accepted")
    case False
    with r0 have "fallback env observation ?s1 = Inr (a, s')" by simp
    from fallback_effects [OF this] k1 show ?thesis
      by auto
  next
    case True
    with r0 obtain s2 where
      s2: "invoke_safe_action env observation (critic_weights_updated ?s1) = Inr s2" and
      b: "if actor_status (ctl_actor (actor_optimized env time s2)) = Accepted
          then (a, s') = Predictive_accept env (actor_optimized env time s2)
          else fallback env observation (actor_optimized env time s2) = Inr (a, s')"
      by auto
    let ?s3 = "actor_optimized env time s2"
    from invoke_safe_action_keeps [OF s2] k1 True have k3:
      "ctl_observation_target ?s3 = ctl_observation_target self"
      "critic_weights_old (ctl_critic ?s3) = critic_weights_old (ctl_critic self)"
      "critic_status (ctl_critic ?s3) = Accepted"
      by (simp_all add: stage_defs)
    from invoke_safe_action_call [OF s2] k1 obtain rel a0 where first:
      "vec_sub observation (ctl_observation_target self) = Inr rel"
      "safe_compute_action env (actor_safe_controller (ctl_actor self)) rel
         = Inr (a0, actor_safe_controller (ctl_actor ?s3))"
      by (auto simp: stage_defs)
    show ?thesis
    proof (cases "actor_status (ctl_actor ?s3) = Accepted")
      case False
      with b have "fallback env observation ?s3 = Inr (a, s')" by simp
      from fallback_effects [OF this] k3 first show ?thesis
        by auto
    next
      case A: True
      with b have "s' = snd (Predictive_accept env ?s3)" by (metis snd_conv)
      with A k3 have "critic_status (ctl_critic s') = Accepted \<and>
          actor_status (ctl_actor s') = Accepted"
        by (simp add: Predictive_accept_def Let_def cache_weights_def update_action_def
            update_and_cache_weights_def)
      with n show ?thesis by simp
    qed
  qed
qed

text \<open>
  C1. A sample of \<open>CALFControllerExPost\<close> or \<open>CALFControllerPredictive\<close> that returns
  with the critic's or the actor's status not \<open>accepted\<close> emits the action that the safe
  controller computed for \<open>observation - self.observation_target\<close>, in its state at the
  start of the sample or in the state its first call of the sample left; that action is
  what the actor holds, as action and as weights of its model, and the critic's cached
  weights are the snapshot of the start of the sample, which is unchanged. The statuses
  at the end of the sample are the results of this sample's tests: the critic's is set by
  \<open>critic.optimize_weights\<close>, and the actor's is read only after the critic's was accepted.
\<close>

theorem rejected_sample_emits_safe_action:
  assumes "ctl_kind self \<noteq> RLController"
    and "compute_action env self observation is_critic_update time observation_target
           = Inr (a, s')"
    and "\<not> (critic_status (ctl_critic s') = Accepted \<and> actor_status (ctl_actor s') = Accepted)"
  shows "\<exists>rel sc0 sc1.
           vec_sub observation (ctl_observation_target self) = Inr rel \<and>
           (sc0 = actor_safe_controller (ctl_actor self) \<or>
            (\<exists>a0. safe_compute_action env (actor_safe_controller (ctl_actor self)) rel
                    = Inr (a0, sc0))) \<and>
           safe_compute_action env sc0 rel = Inr (a, sc1) \<and>
           actor_safe_controller (ctl_actor s') = sc1 \<and>
           actor_action (ctl_actor s') = a \<and>
           actor_weights (ctl_actor s') = a \<and>
           critic_weights (ctl_critic s') = critic_weights_old (ctl_critic self) \<and>
           critic_weights_old (ctl_critic s') = critic_weights_old (ctl_critic self)"
proof (cases "ctl_kind self")
  case RLController
  with assms(1) show ?thesis by simp
next
  case CALFControllerExPost
  with assms(2) have "ExPost_compute_action env self observation is_critic_update time
      observation_target = Inr (a, s')"
    by (simp add: compute_action_def)
  from ExPost_fallback [OF this assms(3)] show ?thesis .
next
  case CALFControllerPredictive
  with assms(2) have "Predictive_compute_action env self observation is_critic_update time
      observation_target = Inr (a, s')"
    by (simp add: compute_action_def)
  from Predictive_fallback [OF this assms(3)] show ?thesis .
qed

lemma example_ExPost_actor_rejected:
  "\<exists>s'. compute_action (example_env Accepted Rejected)
          (example_controller CALFControllerExPost Pending Pending) [Fin 1, Fin 2] False 0
          (zeros 2) = Inr ([Fin (- 1), Fin (- 2)], s') \<and>
        critic_status (ctl_critic s') = Accepted \<and> actor_status (ctl_actor s') = Rejected"
  by (simp add: compute_action_def ExPost_compute_action_def invoke_safe_action_def Let_def
      example_defs stage_defs)

theorem rejected_sample_emits_safe_action_witness:
  "\<exists>s'. compute_action (example_env Accepted Rejected)
          (example_controller CALFControllerExPost Pending Pending) [Fin 1, Fin 2] False 0
          (zeros 2) = Inr ([Fin (- 1), Fin (- 2)], s') \<and>
        actor_status (ctl_actor s') = Rejected \<and>
        actor_action (ctl_actor s') = [Fin (- 1), Fin (- 2)] \<and>
        actor_weights (ctl_actor s') = [Fin (- 1), Fin (- 2)] \<and>
        critic_weights (ctl_critic s') = [Fin 1] \<and>
        critic_weights_old (ctl_critic s') = [Fin 1]"
proof -
  let ?E = "example_env Accepted Rejected"
  let ?S = "example_controller CALFControllerExPost Pending Pending"
  obtain s' where
    r: "compute_action ?E ?S [Fin 1, Fin 2] False 0 (zeros 2)
          = Inr ([Fin (- 1), Fin (- 2)], s')" and
    st: "critic_status (ctl_critic s') = Accepted" "actor_status (ctl_actor s') = Rejected"
    using example_ExPost_actor_rejected by blast
  have k: "ctl_kind ?S \<noteq> RLController"
    by (simp add: example_controller_def)
  have n: "\<not> (critic_status (ctl_critic s') = Accepted \<and> actor_status (ctl_actor s') = Accepted)"
    using st by simp
  from rejected_sample_emits_safe_action [OF k r n]
  have "actor_action (ctl_actor s') = [Fin (- 1), Fin (- 2)] \<and>
        actor_weights (ctl_actor s') = [Fin (- 1), Fin (- 2)] \<and>
        critic_weights (ctl_critic s') = [Fin 1] \<and>
        critic_weights_old (ctl_critic s') = [Fin 1]"
    by (auto simp: example_controller_def example_critic_def)
  with r st show ?thesis by blast
qed

lemma fallback_keeps:
  assumes "fallback env observation s = Inr (a, s')"
  shows "critic_status (ctl_critic s') = critic_status (ctl_critic s) \<and>
         actor_status (ctl_actor s') = actor_status (ctl_actor s) \<and>
         critic_buffer (ctl_critic s') = critic_buffer (ctl_critic s) \<and>
         critic_optimized_weights (ctl_critic s') = critic_optimized_weights (ctl_critic s) \<and>
         actor_observation (ctl_actor s') = actor_observation (ctl_actor s)"
  using assms by (auto simp: fallback_Inr dest: invoke_safe_action_keeps)

lemma accept_keeps:
  "critic_status (ctl_critic (snd (ExPost_accept env observation s))) = critic_status (ctl_critic s)"
  "actor_status (ctl_actor (snd (ExPost_accept env observation s))) = actor_status (ctl_actor s)"
  "critic_buffer (ctl_critic (snd (ExPost_accept env observation s))) = critic_buffer (ctl_critic s)"
  "critic_optimized_weights (ctl_critic (snd (ExPost_accept env observation s)))
     = critic_optimized_weights (ctl_critic s)"
  "actor_observation (ctl_actor (snd (ExPost_accept env observation s)))
     = actor_observation (ctl_actor s)"
  "critic_status (ctl_critic (snd (Predictive_accept env s))) = critic_status (ctl_critic s)"
  "actor_status (ctl_actor (snd (Predictive_accept env s))) = actor_status (ctl_actor s)"
  "critic_buffer (ctl_critic (snd (Predictive_accept env s))) = critic_buffer (ctl_critic s)"
  "critic_optimized_weights (ctl_critic (snd (Predictive_accept env s)))
     = critic_optimized_weights (ctl_critic s)"
  "actor_observation (ctl_actor (snd (Predictive_accept env s))) = actor_observation (ctl_actor s)"
  by (simp_all add: ExPost_accept_def Predictive_accept_def Let_def cache_weights_def
      update_action_def update_and_cache_weights_def)

lemma after_critic_optimization:
  fixes env :: "'s env"
  assumes t: "if critic_status (ctl_critic s1) = Accepted then
           (\<exists>s2. invoke_safe_action env observation (critic_weights_updated s1) = Inr s2 \<and>
              (if actor_status (ctl_actor (actor_optimized env time s2)) = Accepted
               then (a, s') = acc (actor_optimized env time s2)
               else fallback env observation (actor_optimized env time s2) = Inr (a, s')))
         else fallback env observation s1 = Inr (a, s')"
    and acc: "\<And>s. critic_status (ctl_critic (snd (acc s))) = critic_status (ctl_critic s) \<and>
         actor_status (ctl_actor (snd (acc s))) = actor_status (ctl_actor s) \<and>
         critic_buffer (ctl_critic (snd (acc s))) = critic_buffer (ctl_critic s) \<and>
         critic_optimized_weights (ctl_critic (snd (acc s)))
           = critic_optimized_weights (ctl_critic s) \<and>
         actor_observation (ctl_actor (snd (acc s))) = actor_observation (ctl_actor s)"
  shows "critic_status (ctl_critic s') = critic_status (ctl_critic s1) \<and>
         critic_buffer (ctl_critic s') = critic_buffer (ctl_critic s1) \<and>
         critic_optimized_weights (ctl_critic s') = critic_optimized_weights (ctl_critic s1) \<and>
         actor_observation (ctl_actor s') = actor_observation (ctl_actor s1) \<and>
         (critic_status (ctl_critic s1) = Accepted \<longrightarrow>
            (\<exists>s2 :: 's controller.
               actor_observation (ctl_actor s2) = actor_observation (ctl_actor s1) \<and>
                  critic_buffer (ctl_critic s2) = critic_buffer (ctl_critic s1) \<and>
                  actor_status (ctl_actor s')
                    = snd (actor_solver env (ctl_actor s2) (ctl_critic s2) (Some time))))"
proof (cases "critic_status (ctl_critic s1) = Accepted")
  case False
  with t have "fallback env observation s1 = Inr (a, s')" by simp
  from fallback_keeps [OF this] False show ?thesis by simp
next
  case True
  with t obtain s2 where
    s2: "invoke_safe_action env observation (critic_weights_updated s1) = Inr s2" and
    b: "if actor_status (ctl_actor (actor_optimized env time s2)) = Accepted
        then (a, s') = acc (actor_optimized env time s2)
        else fallback env observation (actor_optimized env time s2) = Inr (a, s')"
    by auto
  let ?s3 = "actor_optimized env time s2"
  from invoke_safe_action_keeps [OF s2] have k2:
    "critic_status (ctl_critic s2) = critic_status (ctl_critic s1)"
    "critic_buffer (ctl_critic s2) = critic_buffer (ctl_critic s1)"
    "critic_optimized_weights (ctl_critic s2) = critic_optimized_weights (ctl_critic s1)"
    "actor_observation (ctl_actor s2) = actor_observation (ctl_actor s1)"
    by (simp_all add: critic_weights_updated_def update_weights_def)
  have k3: "critic_status (ctl_critic ?s3) = critic_status (ctl_critic s2)"
    "critic_buffer (ctl_critic ?s3) = critic_buffer (ctl_critic s2)"
    "critic_optimized_weights (ctl_critic ?s3) = critic_optimized_weights (ctl_critic s2)"
    "actor_observation (ctl_actor ?s3) = actor_observation (ctl_actor s2)"
    "actor_status (ctl_actor ?s3) = snd (actor_solver env (ctl_actor s2) (ctl_critic s2) (Some time))"
    by (simp_all add: actor_optimized_def actor_optimize_weights_def)
  have fin: "critic_status (ctl_critic s') = critic_status (ctl_critic ?s3) \<and>
        actor_status (ctl_actor s') = actor_status (ctl_actor ?s3) \<and>
        critic_buffer (ctl_critic s') = critic_buffer (ctl_critic ?s3) \<and>
        critic_optimized_weights (ctl_critic s') = critic_optimized_weights (ctl_critic ?s3) \<and>
        actor_observation (ctl_actor s') = actor_observation (ctl_actor ?s3)"
  proof (cases "actor_status (ctl_actor ?s3) = Accepted")
    case True
    with b have "s' = snd (acc ?s3)" by (metis snd_conv)
    with acc [of ?s3] show ?thesis by simp
  next
    case False
    with b have "fallback env observation ?s3 = Inr (a, s')" by simp
    from fallback_keeps [OF this] show ?thesis by simp
  qed
  show ?thesis
  proof (intro conjI impI)
    show "\<exists>s2 :: 's controller.
            actor_observation (ctl_actor s2) = actor_observation (ctl_actor s1) \<and>
                  critic_buffer (ctl_critic s2) = critic_buffer (ctl_critic s1) \<and>
                  actor_status (ctl_actor s')
                    = snd (actor_solver env (ctl_actor s2) (ctl_critic s2) (Some time))"
      by (rule exI [of _ s2]) (use fin k2 k3 in simp)
  qed (use fin k2 k3 in simp_all)
qed

text \<open>
  C10. In a sample of \<open>CALFControllerExPost\<close> or \<open>CALFControllerPredictive\<close> that returns,
  the critic's solver has run on a critic whose buffer already holds the pair of the
  current observation and the action held before the sample, in a state where the actor
  has received the observation; the actor's solver, which runs when the critic's weights
  are accepted, has run on such a state too; and whatever branch the sample ends in, the
  buffer still holds the pair and the actor the observation.
\<close>

theorem sample_stored_before_optimization:
  fixes env :: "'s env"
  assumes "ctl_kind self \<noteq> RLController"
    and "compute_action env self observation is_critic_update time observation_target
           = Inr (a, s')"
  shows "\<exists>s0 :: 's controller. critic_buffer (ctl_critic s0) =
             push_buffer (critic_capacity (ctl_critic self))
               (observation, actor_action (ctl_actor self)) (critic_buffer (ctl_critic self)) \<and>
           actor_observation (ctl_actor s0) = observation \<and>
           critic_optimized_weights (ctl_critic s') = fst (critic_solver env (ctl_critic s0) time) \<and>
           critic_status (ctl_critic s') = snd (critic_solver env (ctl_critic s0) time) \<and>
           critic_buffer (ctl_critic s') = critic_buffer (ctl_critic s0) \<and>
           actor_observation (ctl_actor s') = observation \<and>
           (critic_status (ctl_critic s') = Accepted \<longrightarrow>
              (\<exists>s2 :: 's controller. actor_observation (ctl_actor s2) = observation \<and>
                    critic_buffer (ctl_critic s2) = critic_buffer (ctl_critic s0) \<and>
                    actor_status (ctl_actor s')
                      = snd (actor_solver env (ctl_actor s2) (ctl_critic s2) (Some time))))"
proof (cases "ctl_kind self")
  case RLController
  with assms(1) show ?thesis by simp
next
  case CALFControllerExPost
  let ?s0 = "ExPost_before_optimize self observation observation_target"
  let ?s1 = "critic_optimized env time ?s0"
  from CALFControllerExPost assms(2) have
    "if critic_status (ctl_critic ?s1) = Accepted then
       (\<exists>s2. invoke_safe_action env observation (critic_weights_updated ?s1) = Inr s2 \<and>
          (if actor_status (ctl_actor (actor_optimized env time s2)) = Accepted
           then (a, s') = ExPost_accept env observation (actor_optimized env time s2)
           else fallback env observation (actor_optimized env time s2) = Inr (a, s')))
     else fallback env observation ?s1 = Inr (a, s')"
    by (auto simp: compute_action_def ExPost_compute_action_Inr Let_def)
  from after_critic_optimization [OF this] accept_keeps(1-5)
  have f: "critic_status (ctl_critic s') = critic_status (ctl_critic ?s1) \<and>
         critic_buffer (ctl_critic s') = critic_buffer (ctl_critic ?s1) \<and>
         critic_optimized_weights (ctl_critic s') = critic_optimized_weights (ctl_critic ?s1) \<and>
         actor_observation (ctl_actor s') = actor_observation (ctl_actor ?s1) \<and>
         (critic_status (ctl_critic ?s1) = Accepted \<longrightarrow>
            (\<exists>s2 :: 's controller.
               actor_observation (ctl_actor s2) = actor_observation (ctl_actor ?s1) \<and>
                  critic_buffer (ctl_critic s2) = critic_buffer (ctl_critic ?s1) \<and>
                  actor_status (ctl_actor s')
                    = snd (actor_solver env (ctl_actor s2) (ctl_critic s2) (Some time))))"
    by blast
  have s0: "critic_buffer (ctl_critic ?s0) =
             push_buffer (critic_capacity (ctl_critic self))
               (observation, actor_action (ctl_actor self)) (critic_buffer (ctl_critic self))"
    "actor_observation (ctl_actor ?s0) = observation"
    by (simp_all add: ExPost_before_optimize_def store_sample_def update_buffers_def
        critic_update_target_def actor_update_target_def receive_observation_def)
  have s1: "critic_buffer (ctl_critic ?s1) = critic_buffer (ctl_critic ?s0)"
    "actor_observation (ctl_actor ?s1) = actor_observation (ctl_actor ?s0)"
    "critic_optimized_weights (ctl_critic ?s1) = fst (critic_solver env (ctl_critic ?s0) time)"
    "critic_status (ctl_critic ?s1) = snd (critic_solver env (ctl_critic ?s0) time)"
    by (simp_all add: critic_optimized_def critic_optimize_weights_def)
  show ?thesis
    by (rule exI [of _ ?s0]) (use f s0 s1 in auto)
next
  case CALFControllerPredictive
  with assms(2) obtain s0 where
    b: "Predictive_before_optimize env self observation observation_target = Inr s0" and
    t: "if critic_status (ctl_critic (critic_optimized env time s0)) = Accepted then
       (\<exists>s2. invoke_safe_action env observation
                (critic_weights_updated (critic_optimized env time s0)) = Inr s2 \<and>
          (if actor_status (ctl_actor (actor_optimized env time s2)) = Accepted
           then (a, s') = Predictive_accept env (actor_optimized env time s2)
           else fallback env observation (actor_optimized env time s2) = Inr (a, s')))
     else fallback env observation (critic_optimized env time s0) = Inr (a, s')"
    by (auto simp: compute_action_def Predictive_compute_action_Inr Let_def)
  let ?s1 = "critic_optimized env time s0"
  from after_critic_optimization [OF t] accept_keeps(6-10)
  have f: "critic_status (ctl_critic s') = critic_status (ctl_critic ?s1) \<and>
         critic_buffer (ctl_critic s') = critic_buffer (ctl_critic ?s1) \<and>
         critic_optimized_weights (ctl_critic s') = critic_optimized_weights (ctl_critic ?s1) \<and>
         actor_observation (ctl_actor s') = actor_observation (ctl_actor ?s1) \<and>
         (critic_status (ctl_critic ?s1) = Accepted \<longrightarrow>
            (\<exists>s2 :: 's controller.
               actor_observation (ctl_actor s2) = actor_observation (ctl_actor ?s1) \<and>
                  critic_buffer (ctl_critic s2) = critic_buffer (ctl_critic ?s1) \<and>
                  actor_status (ctl_actor s')
                    = snd (actor_solver env (ctl_actor s2) (ctl_critic s2) (Some time))))"
    by blast
  from Predictive_before_optimize_keeps [OF b] have s0:
    "critic_buffer (ctl_critic s0) =
             push_buffer (critic_capacity (ctl_critic self))
               (observation, actor_action (ctl_actor self)) (critic_buffer (ctl_critic self))"
    "actor_observation (ctl_actor s0) = observation"
    by simp_all
  have s1: "critic_buffer (ctl_critic ?s1) = critic_buffer (ctl_critic s0)"
    "actor_observation (ctl_actor ?s1) = actor_observation (ctl_actor s0)"
    "critic_optimized_weights (ctl_critic ?s1) = fst (critic_solver env (ctl_critic s0) time)"
    "critic_status (ctl_critic ?s1) = snd (critic_solver env (ctl_critic s0) time)"
    by (simp_all add: critic_optimized_def critic_optimize_weights_def)
  show ?thesis
    by (rule exI [of _ s0]) (use f s0 s1 in auto)
qed

theorem sample_stored_before_optimization_witness:
  "\<exists>s'. compute_action (example_env Accepted Rejected)
          (example_controller CALFControllerExPost Pending Pending) [Fin 1, Fin 2] False 0
          (zeros 2) = Inr ([Fin (- 1), Fin (- 2)], s') \<and>
        critic_status (ctl_critic s') = Accepted \<and>
        critic_buffer (ctl_critic s') = [([Fin 1, Fin 2], [Fin 0, Fin 0])] \<and>
        actor_observation (ctl_actor s') = [Fin 1, Fin 2]"
proof -
  let ?E = "example_env Accepted Rejected"
  let ?S = "example_controller CALFControllerExPost Pending Pending"
  obtain s' where
    r: "compute_action ?E ?S [Fin 1, Fin 2] False 0 (zeros 2)
          = Inr ([Fin (- 1), Fin (- 2)], s')" and
    st: "critic_status (ctl_critic s') = Accepted"
    using example_ExPost_actor_rejected by blast
  have k: "ctl_kind ?S \<noteq> RLController"
    by (simp add: example_controller_def)
  from sample_stored_before_optimization [OF k r]
  have "critic_buffer (ctl_critic s') = [([Fin 1, Fin 2], [Fin 0, Fin 0])] \<and>
        actor_observation (ctl_actor s') = [Fin 1, Fin 2]"
    by (auto simp: example_controller_def example_critic_def example_actor_def
        push_buffer_def zeros_def)
  with r st show ?thesis by blast
qed






lemma Controller_compute_action_sampled_Inr:
  "Controller_compute_action_sampled env self time observation tgt = Inr (a, s') \<longleftrightarrow>
     (\<exists>s3. (if fst (check_time (ctl_clock self) time)
            then (\<exists>a0. compute_action env (check_clocks self time tgt) observation
                         (fst (check_time (critic_clock (ctl_critic self)) time) \<and>
                          \<not> ctl_is_fixed_critic_weights self) time tgt = Inr (a0, s3))
            else s3 = check_clocks self time tgt) \<and>
           apply_action_bounds (ctl_action_bounds s3) (actor_action (ctl_actor s3)) = Inr a \<and>
           s' = s3\<lparr>ctl_action := a\<rparr>)"
  by (auto simp: Controller_compute_action_sampled_def Let_def bindE_eq_Inr)

lemma Controller_hold:
  fixes env :: "'s env"
  assumes prior: "Controller_compute_action_sampled env self t1 ob1 tg1 = Inr (a1, s1)"
    and hold: "\<not> fst (check_time (ctl_clock s1) t2)"
  shows "Controller_compute_action_sampled env s1 t2 ob2 tg2
           = Inr (a1, (check_clocks s1 t2 tg2)\<lparr>ctl_action := a1\<rparr>)"
proof -
  from prior obtain s3 where
    ab: "apply_action_bounds (ctl_action_bounds s3) (actor_action (ctl_actor s3)) = Inr a1" and
    s1: "s1 = s3\<lparr>ctl_action := a1\<rparr>"
    by (auto simp: Controller_compute_action_sampled_Inr)
  from s1 have "ctl_action_bounds s1 = ctl_action_bounds s3" "ctl_actor s1 = ctl_actor s3"
    by simp_all
  with ab hold show ?thesis
    by (simp add: Controller_compute_action_sampled_def Let_def check_clocks_def)
qed

lemma CLF_compute_action_sampled_Inr:
  "CLF_compute_action_sampled mt self time observation = Inr (a, s') \<longleftrightarrow>
     (if fst (check_time (clf_clock self) time)
      then (\<exists>s2. CLF_compute_action mt
                    (self\<lparr>clf_clock := snd (check_time (clf_clock self) time)\<rparr>) observation
                    = Inr (a, s2) \<and> s' = s2\<lparr>clf_action_old := a\<rparr>)
      else a = clf_action_old self \<and>
           s' = self\<lparr>clf_clock := snd (check_time (clf_clock self) time)\<rparr>)"
  by (auto simp: CLF_compute_action_sampled_def Let_def bindE_eq_Inr)

lemma CLF_compute_action_clock:
  "CLF_compute_action mt self observation = Inr (a, s') \<Longrightarrow> clf_clock s' = clf_clock self"
  by (auto simp: CLF_compute_action_def Let_def bindE_eq_Inr split: prod.splits)

lemma check_time_False: "\<not> fst (check_time c t) \<Longrightarrow> snd (check_time c t) = c"
  by (simp add: check_time_def split: if_splits)

lemma CLF_hold:
  assumes prior: "CLF_compute_action_sampled mt self t1 ob1 = Inr (a1, s1)"
    and hold: "\<not> fst (check_time (clf_clock s1) t2)"
  shows "CLF_compute_action_sampled mt s1 t2 ob2
           = Inr (a1, s1\<lparr>clf_clock := snd (check_time (clf_clock s1) t2)\<rparr>)"
proof -
  from prior have "clf_action_old s1 = a1"
    by (auto simp: CLF_compute_action_sampled_Inr split: if_splits)
  with hold show ?thesis
    by (simp add: CLF_compute_action_sampled_def Let_def)
qed

text \<open>
  C2. After a call of \<open>compute_action_sampled\<close> that returned \<open>a1\<close>, a call at a time for
  which the controller's clock reports no new sample returns \<open>a1\<close> again, whatever the
  observation, and runs no cycle: of the actor and the critic only the critic's clock
  has been asked. At a time for which the clock reports a new sample, \<open>compute_action\<close>
  runs once and what is returned is the action the actor then holds, through the
  bounds. The same for \<open>Controller3WRobotDisassembledCLF\<close>, which holds the action in
  \<open>action_old\<close>.
\<close>

theorem zero_order_hold:
  fixes env :: "'s env" and s1 :: "'s controller"
  shows "(Controller_compute_action_sampled env self t1 ob1 tg1 = Inr (a1, s1) \<and>
          \<not> fst (check_time (ctl_clock s1) t2) \<longrightarrow>
            (\<exists>s2. Controller_compute_action_sampled env s1 t2 ob2 tg2 = Inr (a1, s2) \<and>
                  ctl_actor s2 = ctl_actor s1 \<and>
                  ctl_critic s2 = (ctl_critic s1)
                    \<lparr>critic_clock := snd (check_time (critic_clock (ctl_critic s1)) t2)\<rparr>)) \<and>
         (Controller_compute_action_sampled env self t1 ob1 tg1 = Inr (a1, s1) \<and>
          fst (check_time (ctl_clock self) t1) \<longrightarrow>
            (\<exists>a0 s3. compute_action env (check_clocks self t1 tg1) ob1
                        (fst (check_time (critic_clock (ctl_critic self)) t1) \<and>
                         \<not> ctl_is_fixed_critic_weights self) t1 tg1 = Inr (a0, s3) \<and>
                  apply_action_bounds (ctl_action_bounds s3) (actor_action (ctl_actor s3))
                    = Inr a1 \<and>
                  s1 = s3\<lparr>ctl_action := a1\<rparr>)) \<and>
         (CLF_compute_action_sampled mt c t1 ob1 = Inr (b1, c1) \<and>
          \<not> fst (check_time (clf_clock c1) t2) \<longrightarrow>
            CLF_compute_action_sampled mt c1 t2 ob2
              = Inr (b1, c1\<lparr>clf_clock := snd (check_time (clf_clock c1) t2)\<rparr>)) \<and>
         (CLF_compute_action_sampled mt c t1 ob1 = Inr (b1, c1) \<and>
          fst (check_time (clf_clock c) t1) \<longrightarrow>
            (\<exists>c2. CLF_compute_action mt
                     (c\<lparr>clf_clock := snd (check_time (clf_clock c) t1)\<rparr>) ob1 = Inr (b1, c2) \<and>
                  c1 = c2\<lparr>clf_action_old := b1\<rparr>))"
proof (intro conjI impI)
  assume "Controller_compute_action_sampled env self t1 ob1 tg1 = Inr (a1, s1) \<and>
          \<not> fst (check_time (ctl_clock s1) t2)"
  then have "Controller_compute_action_sampled env s1 t2 ob2 tg2
           = Inr (a1, (check_clocks s1 t2 tg2)\<lparr>ctl_action := a1\<rparr>)"
    using Controller_hold by blast
  then show "\<exists>s2. Controller_compute_action_sampled env s1 t2 ob2 tg2 = Inr (a1, s2) \<and>
                  ctl_actor s2 = ctl_actor s1 \<and>
                  ctl_critic s2 = (ctl_critic s1)
                    \<lparr>critic_clock := snd (check_time (critic_clock (ctl_critic s1)) t2)\<rparr>"
    by (simp add: check_clocks_def)
next
  assume "Controller_compute_action_sampled env self t1 ob1 tg1 = Inr (a1, s1) \<and>
          fst (check_time (ctl_clock self) t1)"
  then show "\<exists>a0 s3. compute_action env (check_clocks self t1 tg1) ob1
                        (fst (check_time (critic_clock (ctl_critic self)) t1) \<and>
                         \<not> ctl_is_fixed_critic_weights self) t1 tg1 = Inr (a0, s3) \<and>
                  apply_action_bounds (ctl_action_bounds s3) (actor_action (ctl_actor s3))
                    = Inr a1 \<and>
                  s1 = s3\<lparr>ctl_action := a1\<rparr>"
    by (auto simp: Controller_compute_action_sampled_Inr)
next
  assume "CLF_compute_action_sampled mt c t1 ob1 = Inr (b1, c1) \<and>
          \<not> fst (check_time (clf_clock c1) t2)"
  then show "CLF_compute_action_sampled mt c1 t2 ob2
              = Inr (b1, c1\<lparr>clf_clock := snd (check_time (clf_clock c1) t2)\<rparr>)"
    using CLF_hold by blast
next
  assume "CLF_compute_action_sampled mt c t1 ob1 = Inr (b1, c1) \<and>
          fst (check_time (clf_clock c) t1)"
  then show "\<exists>c2. CLF_compute_action mt
                     (c\<lparr>clf_clock := snd (check_time (clf_clock c) t1)\<rparr>) ob1 = Inr (b1, c2) \<and>
                  c1 = c2\<lparr>clf_action_old := b1\<rparr>"
    by (auto simp: CLF_compute_action_sampled_Inr)
qed

lemma check_time_example [simp]:
  "check_time \<lparr>clock_period = 1 / 10, clock_time_start = 0, clock_current_time = 0\<rparr> (1 / 10)
     = (True, \<lparr>clock_period = 1 / 10, clock_time_start = 0, clock_current_time = 1 / 10\<rparr>)"
  "check_time \<lparr>clock_period = 1 / 10, clock_time_start = 0, clock_current_time = 1 / 10\<rparr> (3 / 20)
     = (False, \<lparr>clock_period = 1 / 10, clock_time_start = 0, clock_current_time = 1 / 10\<rparr>)"
  by (simp_all add: check_time_def)

lemma example_sampled_first:
  "\<exists>s1. Controller_compute_action_sampled (example_env Rejected Rejected)
          (example_controller CALFControllerExPost Pending Pending) (1 / 10) [Fin 1, Fin 2]
          (zeros 2) = Inr ([Fin (- 1), Fin (- 2)], s1) \<and>
        ctl_clock s1 = \<lparr>clock_period = 1 / 10, clock_time_start = 0,
                         clock_current_time = 1 / 10\<rparr>"
  by (simp add: Controller_compute_action_sampled_def check_clocks_def compute_action_def
      ExPost_compute_action_def invoke_safe_action_def Let_def apply_action_bounds_def
      example_defs stage_defs)

lemma CLF_compute_action_returns:
  "clf_action_bounds s = Rows [] \<Longrightarrow>
     \<exists>a s'. CLF_compute_action mt s (xc # yc # angle # v # omega # rest) = Inr (a, s')"
  by (simp add: CLF_compute_action_def Let_def apply_action_bounds_def split_def)

lemma example_CLF_first:
  "\<exists>b1 c1. CLF_compute_action_sampled example_theta
          (Controller3WRobotDisassembledCLF 10 1 10 (Rows []) 0 (1 / 10)) (1 / 10)
          [Fin 1, Fin 1, Fin 0, Fin 0, Fin 0] = Inr (b1, c1) \<and>
        clf_clock c1 = \<lparr>clock_period = 1 / 10, clock_time_start = 0,
                         clock_current_time = 1 / 10\<rparr>"
proof -
  let ?c = "Controller3WRobotDisassembledCLF 10 1 10 (Rows []) 0 (1 / 10)"
  let ?c' = "?c\<lparr>clf_clock := snd (check_time (clf_clock ?c) (1 / 10))\<rparr>"
  have "clf_action_bounds ?c' = Rows []"
    by (simp add: Controller3WRobotDisassembledCLF_def)
  from CLF_compute_action_returns [OF this] obtain a s' where
    r: "CLF_compute_action example_theta ?c' [Fin 1, Fin 1, Fin 0, Fin 0, Fin 0] = Inr (a, s')"
    by blast
  have n: "fst (check_time (clf_clock ?c) (1 / 10))"
    by (simp add: Controller3WRobotDisassembledCLF_def Clock_def)
  from CLF_compute_action_clock [OF r] have "clf_clock s' = clf_clock ?c'" .
  then have "clf_clock (s'\<lparr>clf_action_old := a\<rparr>) =
      \<lparr>clock_period = 1 / 10, clock_time_start = 0, clock_current_time = 1 / 10\<rparr>"
    by (simp add: Controller3WRobotDisassembledCLF_def Clock_def)
  moreover from r n have "CLF_compute_action_sampled example_theta ?c (1 / 10)
      [Fin 1, Fin 1, Fin 0, Fin 0, Fin 0] = Inr (a, s'\<lparr>clf_action_old := a\<rparr>)"
    by (simp add: CLF_compute_action_sampled_Inr)
  ultimately show ?thesis by blast
qed

theorem zero_order_hold_witness:
  "(\<exists>s1 s2. Controller_compute_action_sampled (example_env Rejected Rejected)
          (example_controller CALFControllerExPost Pending Pending) (1 / 10) [Fin 1, Fin 2]
          (zeros 2) = Inr ([Fin (- 1), Fin (- 2)], s1) \<and>
      Controller_compute_action_sampled (example_env Rejected Rejected) s1 (3 / 20)
          [Fin 5, Fin 6] (zeros 2) = Inr ([Fin (- 1), Fin (- 2)], s2) \<and>
      ctl_actor s2 = ctl_actor s1) \<and>
   (\<exists>b1 c1 c2. CLF_compute_action_sampled example_theta
          (Controller3WRobotDisassembledCLF 10 1 10 (Rows []) 0 (1 / 10)) (1 / 10)
          [Fin 1, Fin 1, Fin 0, Fin 0, Fin 0] = Inr (b1, c1) \<and>
      CLF_compute_action_sampled example_theta c1 (3 / 20)
          [Fin 2, Fin 2, Fin 0, Fin 0, Fin 0] = Inr (b1, c2))"
proof
  let ?E = "example_env Rejected Rejected"
  let ?S = "example_controller CALFControllerExPost Pending Pending"
  obtain s1 where
    r: "Controller_compute_action_sampled ?E ?S (1 / 10) [Fin 1, Fin 2] (zeros 2)
          = Inr ([Fin (- 1), Fin (- 2)], s1)" and
    c: "ctl_clock s1 = \<lparr>clock_period = 1 / 10, clock_time_start = 0,
                         clock_current_time = 1 / 10\<rparr>"
    using example_sampled_first by blast
  from c have h: "\<not> fst (check_time (ctl_clock s1) (3 / 20))" by simp
  from zero_order_hold [where env = ?E and self = ?S and ?t1.0 = "1 / 10"
      and ?ob1.0 = "[Fin 1, Fin 2]" and ?tg1.0 = "zeros 2" and ?a1.0 = "[Fin (- 1), Fin (- 2)]"
      and ?s1.0 = s1 and ?t2.0 = "3 / 20" and ?ob2.0 = "[Fin 5, Fin 6]" and ?tg2.0 = "zeros 2"]
    r h
  show "\<exists>s1 s2. Controller_compute_action_sampled ?E ?S (1 / 10) [Fin 1, Fin 2]
          (zeros 2) = Inr ([Fin (- 1), Fin (- 2)], s1) \<and>
      Controller_compute_action_sampled ?E s1 (3 / 20)
          [Fin 5, Fin 6] (zeros 2) = Inr ([Fin (- 1), Fin (- 2)], s2) \<and>
      ctl_actor s2 = ctl_actor s1"
    by blast
next
  let ?C = "Controller3WRobotDisassembledCLF 10 1 10 (Rows []) 0 (1 / 10)"
  obtain b1 c1 where
    r: "CLF_compute_action_sampled example_theta ?C (1 / 10)
          [Fin 1, Fin 1, Fin 0, Fin 0, Fin 0] = Inr (b1, c1)" and
    c: "clf_clock c1 = \<lparr>clock_period = 1 / 10, clock_time_start = 0,
                         clock_current_time = 1 / 10\<rparr>"
    using example_CLF_first by blast
  from c have h: "\<not> fst (check_time (clf_clock c1) (3 / 20))" by simp
  from zero_order_hold [where mt = example_theta and c = ?C and ?t1.0 = "1 / 10"
      and ?ob1.0 = "[Fin 1, Fin 1, Fin 0, Fin 0, Fin 0]" and ?b1.0 = b1
      and ?c1.0 = c1 and ?t2.0 = "3 / 20" and ?ob2.0 = "[Fin 2, Fin 2, Fin 0, Fin 0, Fin 0]"]
    r h
  show "\<exists>b1 c1 c2. CLF_compute_action_sampled example_theta ?C (1 / 10)
          [Fin 1, Fin 1, Fin 0, Fin 0, Fin 0] = Inr (b1, c1) \<and>
      CLF_compute_action_sampled example_theta c1 (3 / 20)
          [Fin 2, Fin 2, Fin 0, Fin 0, Fin 0] = Inr (b1, c2)"
    by blast
qed

text \<open>
  C9. A CALF controller constructed with \<open>safe_only\<close> answers every call of
  \<open>compute_action_sampled\<close> with the bound method of the safe controller it embeds: over
  any sequence of times, observations and targets it emits the actions, and the
  exception if there is one, that the safe controller called directly on the same inputs
  emits.
\<close>

theorem safe_only_runs_safe_controller:
  fixes env :: "'s env" and self :: "'s controller"
  assumes "ctl_kind self \<noteq> RLController" and "ctl_safe_only self"
  shows "run_controller env self inputs
           = run_safe_controller env (actor_safe_controller (ctl_actor self)) inputs"
  using assms
proof (induction inputs arbitrary: self)
  case Nil
  show ?case by simp
next
  case (Cons i inputs)
  obtain time observation observation_target where i: "i = (time, observation, observation_target)"
    by (cases i) auto
  let ?sc = "actor_safe_controller (ctl_actor self)"
  show ?case
  proof (cases "safe_compute_action_sampled env ?sc time observation observation_target")
    case (Inl e)
    with Cons.prems i show ?thesis
      by (simp add: compute_action_sampled_def)
  next
    case (Inr r)
    obtain action sc where r: "r = (action, sc)" by (cases r) auto
    let ?s = "self\<lparr>ctl_actor := (ctl_actor self)\<lparr>actor_safe_controller := sc\<rparr>\<rparr>"
    have "ctl_kind ?s \<noteq> RLController" "ctl_safe_only ?s"
      using Cons.prems by simp_all
    from Cons.IH [OF this] have
      "run_controller env ?s inputs = run_safe_controller env sc inputs"
      by simp
    with Inr r Cons.prems i show ?thesis
      by (simp add: compute_action_sampled_def)
  qed
qed

lemma example_safe_run:
  "run_safe_controller (example_env cs as) (ControllerKinPoint 1 0 (1 / 10) PyNone)
     [(1 / 10, [Fin 1, Fin 2], zeros 2), (3 / 20, [Fin 5, Fin 6], zeros 2)]
   = [Inr [Fin (- 1), Fin (- 2)], Inr [Fin (- 1), Fin (- 2)]]"
  by (simp add: example_env_def KinPoint_compute_action_sampled_def ControllerKinPoint_def
      Clock_def init_action_bounds_def Let_def)

theorem safe_only_runs_safe_controller_witness:
  "run_controller (example_env Accepted Accepted)
     ((example_controller CALFControllerExPost Pending Pending)\<lparr>ctl_safe_only := True\<rparr>)
     [(1 / 10, [Fin 1, Fin 2], zeros 2), (3 / 20, [Fin 5, Fin 6], zeros 2)]
   = [Inr [Fin (- 1), Fin (- 2)], Inr [Fin (- 1), Fin (- 2)]]"
proof -
  let ?E = "example_env Accepted Accepted"
  let ?S = "(example_controller CALFControllerExPost Pending Pending)\<lparr>ctl_safe_only := True\<rparr>"
  let ?I = "[(1 / 10, [Fin 1, Fin 2], zeros 2), (3 / 20, [Fin 5, Fin 6], zeros 2)]"
  have k: "ctl_kind ?S \<noteq> RLController" and o: "ctl_safe_only ?S"
    by (simp_all add: example_controller_def)
  have sc: "actor_safe_controller (ctl_actor ?S) = ControllerKinPoint 1 0 (1 / 10) PyNone"
    by (simp add: example_controller_def example_actor_def)
  have "run_controller ?E ?S ?I
          = run_safe_controller ?E (actor_safe_controller (ctl_actor ?S)) ?I"
    by (rule safe_only_runs_safe_controller [OF k o])
  also have "\<dots> = run_safe_controller ?E (ControllerKinPoint 1 0 (1 / 10) PyNone) ?I"
    by (simp only: sc)
  also have "\<dots> = [Inr [Fin (- 1), Fin (- 2)], Inr [Fin (- 1), Fin (- 2)]]"
    by (rule example_safe_run)
  finally show ?thesis .
qed

lemma RLController_reset_effects:
  "ctl_clock (RLController_reset self) = clock_reset (ctl_clock self)"
  "critic_clock (ctl_critic (RLController_reset self)) = clock_reset (critic_clock (ctl_critic self))"
  "clock_current_time (clock_reset c) = clock_time_start c"
  "actor_action_old (ctl_actor (RLController_reset self)) = actor_action_init (ctl_actor self)"
  "actor_action (ctl_actor (RLController_reset self)) = actor_action (ctl_actor self)"
  "actor_weights (ctl_actor (RLController_reset self)) = actor_weights (ctl_actor self)"
  "actor_optimized_weights (ctl_actor (RLController_reset self))
     = actor_optimized_weights (ctl_actor self)"
  "critic_weights (ctl_critic (RLController_reset self)) = critic_weights (ctl_critic self)"
  "critic_weights_old (ctl_critic (RLController_reset self))
     = critic_weights_old (ctl_critic self)"
  "critic_optimized_weights (ctl_critic (RLController_reset self))
     = critic_optimized_weights (ctl_critic self)"
  by (simp_all add: RLController_reset_def clock_reset_def)

text \<open>
  C7. \<open>Controller3WRobotDisassembledCLF.reset\<close> sets \<open>action_old\<close> to zeros and leaves the
  controller's clock where the last sample put it: after one sample at time 1/10 and a
  reset the clock stands at 1/10, its origin being 0. \<open>RLController.reset\<close> rewinds the
  controller's and the critic's clock, sets \<open>actor.action_old\<close> to \<open>actor.action_init\<close>
  and leaves the weights (\<open>RLController_reset_effects\<close>).
\<close>

theorem CLF_reset_leaves_clock:
  "clf_clock (CLF_reset self) = clf_clock self \<and>
   clf_action_old (CLF_reset self) = zeros 2 \<and>
   (\<exists>b c. CLF_compute_action_sampled example_theta
            (Controller3WRobotDisassembledCLF 10 1 10 (Rows []) 0 (1 / 10)) (1 / 10)
            [Fin 1, Fin 1, Fin 0, Fin 0, Fin 0] = Inr (b, c) \<and>
          clock_current_time (clf_clock (CLF_reset c)) = 1 / 10 \<and>
          clock_time_start (clf_clock (CLF_reset c)) = 0)"
proof -
  obtain b c where
    "CLF_compute_action_sampled example_theta
       (Controller3WRobotDisassembledCLF 10 1 10 (Rows []) 0 (1 / 10)) (1 / 10)
       [Fin 1, Fin 1, Fin 0, Fin 0, Fin 0] = Inr (b, c)"
    "clf_clock c = \<lparr>clock_period = 1 / 10, clock_time_start = 0, clock_current_time = 1 / 10\<rparr>"
    using example_CLF_first by blast
  then show ?thesis
    by (auto simp: CLF_reset_def)
qed

lemma NI_Cart2NH_Fin:
  "NI_Cart2NH (Fin x # Fin y # Fin angle # rest) =
     Inr (Fin angle, Fin (x * cos angle + y * sin angle),
          Fin (- 2 * (y * cos angle - x * sin angle) - angle * (x * cos angle + y * sin angle)))"
  by simp












end
